theory Spec2Isabelle
  imports Main "HOL-Library.Sublist" "HOL-Library.Char_ord" "HOL-Library.List_Lexorder"
begin

section \<open>JavaScript values and raised errors\<close>

text \<open>
  The loader is dynamically typed. The values that reach the modelled functions are
  represented by \<open>jsval\<close>; a function value is opaque and carries only its name.
  Numbers are integers here: no modelled branch depends on a fractional value.
  Only plain objects carry named properties in this value model.
\<close>

datatype jsval =
    JUndefined
  | JNull
  | JBool bool
  | JNum int
  | JStr string
  | JFun string
  | JArr "jsval list"
  | JObj "(string \<times> jsval) list"

type_synonym obj = "(string \<times> jsval) list"

text \<open>Every \<open>throw\<close> of the source is a value of \<open>error\<close>; a function that can
  throw returns \<open>error + 'a\<close> with \<open>Inl\<close> for the raised error.\<close>

datatype error =
    TenantIdNotNonEmptyString
  | TenantIdInvalidCharacters
  | PathTraversalAttempt string
  | MaxTenantsReached nat
  | TenantNotFound string
  | NoAdapterFound jsval
  | TypeError
  | ExternalFailure string

text \<open>The \<open>message\<close> of a raised error, where the source reads it.\<close>

fun err_message :: "error \<Rightarrow> string" where
  "err_message TenantIdNotNonEmptyString = ''Tenant ID must be a non-empty string''"
| "err_message TenantIdInvalidCharacters = ''Tenant ID contains invalid characters''"
| "err_message (PathTraversalAttempt p) = ''Path traversal attempt detected: '' @ p"
| "err_message (MaxTenantsReached n) = ''Maximum number of tenants reached''"
| "err_message (TenantNotFound t) = ''Tenant '' @ t @ '' not found''"
| "err_message (NoAdapterFound src) = ''No adapter found for tenant source''"
| "err_message TypeError = ''TypeError''"
| "err_message (ExternalFailure msg) = msg"

definition invalid_identifier :: "error \<Rightarrow> bool" where
  "invalid_identifier e \<longleftrightarrow> e = TenantIdNotNonEmptyString \<or> e = TenantIdInvalidCharacters"

text \<open>Truthiness as \<open>!v\<close>, \<open>v || w\<close> and \<open>if (v)\<close> test it.\<close>

fun truthy :: "jsval \<Rightarrow> bool" where
  "truthy JUndefined = False"
| "truthy JNull = False"
| "truthy (JBool b) = b"
| "truthy (JNum n) = (n \<noteq> 0)"
| "truthy (JStr s) = (s \<noteq> [])"
| "truthy (JFun f) = True"
| "truthy (JArr xs) = True"
| "truthy (JObj fs) = True"

definition js_or :: "jsval \<Rightarrow> jsval \<Rightarrow> jsval" where
  "js_or a b = (if truthy a then a else b)"

text \<open>Own properties of an object literal keep insertion order; assigning to an
  existing key replaces the value in place.\<close>

fun obj_set :: "string \<Rightarrow> 'v \<Rightarrow> (string \<times> 'v) list \<Rightarrow> (string \<times> 'v) list" where
  "obj_set k v [] = [(k, v)]"
| "obj_set k v (p # ps) = (if fst p = k then (k, v) # ps else p # obj_set k v ps)"

definition obj_delete :: "string \<Rightarrow> (string \<times> 'v) list \<Rightarrow> (string \<times> 'v) list" where
  "obj_delete k ps = filter (\<lambda>p. fst p \<noteq> k) ps"

text \<open>Reading a property: \<open>TypeError\<close> on \<open>null\<close> and \<open>undefined\<close>, \<open>undefined\<close>
  for a missing key and for the named properties read here on other values.\<close>

fun get_prop :: "jsval \<Rightarrow> string \<Rightarrow> error + jsval" where
  "get_prop JUndefined k = Inl TypeError"
| "get_prop JNull k = Inl TypeError"
| "get_prop (JObj fs) k = Inr (case map_of fs k of None \<Rightarrow> JUndefined | Some v \<Rightarrow> v)"
| "get_prop v k = Inr JUndefined"

section \<open>SecurityValidator\<close>

text \<open>The character class \<open>[a-zA-Z0-9\-_]\<close> of the sanitising regular expression.\<close>

definition allowed_char :: "char \<Rightarrow> bool" where
  "allowed_char c \<longleftrightarrow>
     (CHR ''a'' \<le> c \<and> c \<le> CHR ''z'') \<or> (CHR ''A'' \<le> c \<and> c \<le> CHR ''Z'') \<or>
     (CHR ''0'' \<le> c \<and> c \<le> CHR ''9'') \<or> c = CHR ''-'' \<or> c = CHR ''_''"

definition validateTenantId :: "jsval \<Rightarrow> error + string" where
  "validateTenantId tenantId =
     (if \<not> truthy tenantId then Inl TenantIdNotNonEmptyString
      else case tenantId of
        JStr s \<Rightarrow>
          (let sanitized = filter allowed_char s
           in if sanitized \<noteq> s \<or> length sanitized = 0
              then Inl TenantIdInvalidCharacters
              else Inr sanitized)
      | _ \<Rightarrow> Inl TenantIdNotNonEmptyString)"

section \<open>The POSIX path module\<close>

text \<open>
  \<open>path.isAbsolute\<close>, \<open>path.resolve\<close>, \<open>path.join\<close> and \<open>path.basename\<close> of the
  runtime, on POSIX paths. \<open>normalizeString\<close> works on the segments between slashes:
  empty and \<open>.\<close> segments vanish, \<open>..\<close> removes the segment before it, and above
  the root it is dropped unless \<open>allowAboveRoot\<close>.
\<close>

definition isAbsolute :: "string \<Rightarrow> bool" where
  "isAbsolute p \<longleftrightarrow> (case p of [] \<Rightarrow> False | c # cs \<Rightarrow> c = CHR ''/'')"

fun split_slash :: "string \<Rightarrow> string list" where
  "split_slash [] = [[]]"
| "split_slash (c # cs) =
     (if c = CHR ''/'' then [] # split_slash cs
      else (case split_slash cs of [] \<Rightarrow> [[c]] | s # ss \<Rightarrow> (c # s) # ss))"

fun join_slash :: "string list \<Rightarrow> string" where
  "join_slash [] = []"
| "join_slash [s] = s"
| "join_slash (s # t # ss) = s @ CHR ''/'' # join_slash (t # ss)"

fun normalizeSegments :: "bool \<Rightarrow> string list \<Rightarrow> string list \<Rightarrow> string list" where
  "normalizeSegments allowAboveRoot res [] = rev res"
| "normalizeSegments allowAboveRoot res (seg # segs) =
     (if seg = [] \<or> seg = ''.'' then normalizeSegments allowAboveRoot res segs
      else if seg = ''..'' then
        (case res of
           [] \<Rightarrow> normalizeSegments allowAboveRoot (if allowAboveRoot then [''..''] else []) segs
         | r # rs \<Rightarrow>
             if r = ''..''
             then normalizeSegments allowAboveRoot (if allowAboveRoot then ''..'' # res else res) segs
             else normalizeSegments allowAboveRoot rs segs)
      else normalizeSegments allowAboveRoot (seg # res) segs)"

definition normalizeString :: "string \<Rightarrow> bool \<Rightarrow> string" where
  "normalizeString p allowAboveRoot = join_slash (normalizeSegments allowAboveRoot [] (split_slash p))"

text \<open>\<open>path.resolve\<close> prepends its arguments from the right, then the working
  directory, until the path is absolute; empty arguments are skipped.\<close>

fun resolveGather :: "string list \<Rightarrow> string \<Rightarrow> string \<times> bool" where
  "resolveGather [] resolvedPath = (resolvedPath, False)"
| "resolveGather (p # ps) resolvedPath =
     (if p = [] then resolveGather ps resolvedPath
      else if isAbsolute p then (p @ CHR ''/'' # resolvedPath, True)
      else resolveGather ps (p @ CHR ''/'' # resolvedPath))"

definition path_resolve :: "string \<Rightarrow> string list \<Rightarrow> string" where
  "path_resolve cwd args =
     (case resolveGather (rev args @ [cwd]) [] of
        (resolvedPath, resolvedAbsolute) \<Rightarrow>
          (let n = normalizeString resolvedPath (\<not> resolvedAbsolute)
           in if resolvedAbsolute then CHR ''/'' # n
              else if n \<noteq> [] then n else ''.''))"

definition path_normalize :: "string \<Rightarrow> string" where
  "path_normalize p =
     (if p = [] then ''.''
      else
        (let isAbs = isAbsolute p;
             trailingSeparator = (last p = CHR ''/'');
             n = normalizeString p (\<not> isAbs)
         in if n = [] then (if isAbs then ''/'' else if trailingSeparator then ''./'' else ''.'')
            else (let n' = (if trailingSeparator then n @ ''/'' else n)
                  in if isAbs then CHR ''/'' # n' else n')))"

definition path_join :: "string list \<Rightarrow> string" where
  "path_join args =
     (let joined = filter (\<lambda>a. a \<noteq> []) args
      in if joined = [] then ''.'' else path_normalize (join_slash joined))"

definition path_basename :: "string \<Rightarrow> string" where
  "path_basename p =
     rev (takeWhile (\<lambda>c. c \<noteq> CHR ''/'') (dropWhile (\<lambda>c. c = CHR ''/'') (rev p)))"

section \<open>PathResolver\<close>

text \<open>\<open>baseDir\<close> is stored resolved by the constructor; \<open>trustedPackagePaths\<close> is a
  \<open>Set\<close>, kept as a duplicate-free list in insertion order.\<close>

record PathResolver =
  baseDir :: string
  trustedPackagePaths :: "string list"

record resolve_options =
  allowTrusted :: bool

definition new_PathResolver :: "string \<Rightarrow> string \<Rightarrow> PathResolver" where
  "new_PathResolver cwd dir = \<lparr> baseDir = path_resolve cwd [dir], trustedPackagePaths = [] \<rparr>"

definition set_add :: "'a \<Rightarrow> 'a list \<Rightarrow> 'a list" where
  "set_add x xs = (if x \<in> set xs then xs else xs @ [x])"

definition addTrustedPath :: "string \<Rightarrow> string \<Rightarrow> PathResolver \<Rightarrow> PathResolver" where
  "addTrustedPath cwd packagePath r =
     r\<lparr> trustedPackagePaths := set_add (path_resolve cwd [packagePath]) (trustedPackagePaths r) \<rparr>"

text \<open>\<open>startsWith\<close> is the string-prefix test \<open>prefix\<close>.\<close>

definition isTrustedPath :: "string \<Rightarrow> PathResolver \<Rightarrow> string \<Rightarrow> bool" where
  "isTrustedPath cwd r filePath =
     (let resolved = path_resolve cwd [filePath]
      in list_ex (\<lambda>trustedPath. prefix trustedPath resolved) (trustedPackagePaths r))"

definition resolvePath :: "string \<Rightarrow> PathResolver \<Rightarrow> string \<Rightarrow> resolve_options \<Rightarrow> error + string" where
  "resolvePath cwd r relativePath options =
     (if isAbsolute relativePath then
        (if allowTrusted options \<and> isTrustedPath cwd r relativePath
         then Inr relativePath
         else Inr relativePath)
      else
        (let resolved = path_resolve cwd [baseDir r, relativePath]
         in if \<not> prefix (baseDir r) resolved \<and> \<not> isTrustedPath cwd r resolved
            then Inl (PathTraversalAttempt relativePath)
            else Inr resolved))"

text \<open>
  Directory containment as the specification words it: a path lies under a root when
  the root's segments are a leading part of the path's segments.
\<close>

definition path_segments :: "string \<Rightarrow> string list" where
  "path_segments p = filter (\<lambda>s. s \<noteq> []) (split_slash p)"

definition lies_under :: "string \<Rightarrow> string \<Rightarrow> bool" where
  "lies_under root p \<longleftrightarrow> prefix (path_segments root) (path_segments p)"

section \<open>The world outside the loader\<close>

text \<open>
  File system, module system, third-party libraries and the host application are taken
  as an environment. \<open>deepmerge\<close> is the merge library; \<open>fastGlob_config\<close> is the
  glob \<open>config.{json,js,mjs}\<close> under a directory, absolute paths in the order the
  library returns them; \<open>readFile_JSON_parse\<close> reads and parses a JSON file;
  \<open>dynamic_import\<close> yields a module namespace object; \<open>resolve_package\<close> stands
  for module resolution up to the package root and its manifest. The schema, service
  and plugin operations of \<open>ResourceLoader\<close> import modules and register them with
  the host application: their outcome is taken from the environment as well.
\<close>

record env =
  process_cwd :: string
  fs_access :: "string \<Rightarrow> bool"
  fastGlob_config :: "string \<Rightarrow> error + string list"
  readFile_JSON_parse :: "string \<Rightarrow> error + jsval"
  dynamic_import :: "string \<Rightarrow> error + jsval"
  deepmerge :: "jsval \<Rightarrow> jsval \<Rightarrow> error + jsval"
  resolve_package :: "string \<Rightarrow> error + string \<times> jsval"
  fs_readdir :: "string \<Rightarrow> error + string list"
  rl_loadSchemas :: "string \<Rightarrow> bool \<Rightarrow> bool"
  rl_loadServices :: "string \<Rightarrow> jsval \<Rightarrow> bool \<Rightarrow> obj"
  rl_loadPlugin :: "string \<Rightarrow> bool \<Rightarrow> bool"
  app_register :: "jsval \<Rightarrow> jsval \<Rightarrow> error + unit"

section \<open>Tenant contexts, the registry and the manager's state\<close>

datatype level = LogDebug | LogInfo | LogWarn | LogError

type_synonym log_entry = "level \<times> string \<times> jsval list"

datatype adapter = LocalTenantAdapter | NPMTenantAdapter

fun getType :: "adapter \<Rightarrow> string" where
  "getType LocalTenantAdapter = ''local''"
| "getType NPMTenantAdapter = ''npm''"

text \<open>The creation timestamp of a context is not modelled.\<close>

record TenantContext =
  ctx_id :: string
  ctx_config :: jsval
  ctx_adapter :: adapter
  ctx_services :: obj
  ctx_plugins :: "string list"
  ctx_routes :: "string list"
  ctx_schemas :: "string list"
  ctx_active :: bool
  ctx_type :: string

text \<open>\<open>tenants\<close> is a \<open>Map\<close>: a list of entries in insertion order whose keys stay
  distinct, so that its \<open>size\<close> is the length of the list. \<open>maxTenants\<close> is a number
  of tenants, 50 unless configured.\<close>

record TenantRegistry =
  tenants :: "(string \<times> TenantContext) list"
  maxTenants :: nat

text \<open>The objects share one logger and one path resolver; the manager's state holds
  both together with the registry.\<close>

record TenantManager =
  logger :: "log_entry list"
  pathResolver :: PathResolver
  tenantRegistry :: TenantRegistry

definition logger_write :: "level \<Rightarrow> string \<Rightarrow> jsval list \<Rightarrow> TenantManager \<Rightarrow> TenantManager" where
  "logger_write lvl msg args m = m\<lparr> logger := logger m @ [(lvl, msg, args)] \<rparr>"

definition new_TenantRegistry :: "nat \<Rightarrow> TenantRegistry" where
  "new_TenantRegistry maxT = \<lparr> tenants = [], maxTenants = maxT \<rparr>"

definition register :: "TenantContext \<Rightarrow> TenantManager \<Rightarrow> (error + unit) \<times> TenantManager" where
  "register tenant m =
     (let reg = tenantRegistry m
      in if length (tenants reg) \<ge> maxTenants reg
         then (Inl (MaxTenantsReached (maxTenants reg)), m)
         else (Inr (),
               logger_write LogInfo ''Tenant registered in registry'' [JStr (ctx_id tenant)]
                 (m\<lparr> tenantRegistry := reg\<lparr> tenants := obj_set (ctx_id tenant) tenant (tenants reg) \<rparr> \<rparr>)))"

definition unregister :: "string \<Rightarrow> TenantManager \<Rightarrow> bool \<times> TenantManager" where
  "unregister tenantId m =
     (let reg = tenantRegistry m;
          success = (map_of (tenants reg) tenantId \<noteq> None)
      in if success
         then (True,
               logger_write LogInfo ''Tenant unregistered from registry'' [JStr tenantId]
                 (m\<lparr> tenantRegistry := reg\<lparr> tenants := obj_delete tenantId (tenants reg) \<rparr> \<rparr>))
         else (False, m))"

definition getTenant :: "TenantManager \<Rightarrow> string \<Rightarrow> TenantContext option" where
  "getTenant m tenantId = map_of (tenants (tenantRegistry m)) tenantId"

text \<open>A caller that catches the error of a refused registration goes on with the
  registry as it was.\<close>

datatype registry_op = Register TenantContext | Unregister string

fun apply_registry_op :: "registry_op \<Rightarrow> TenantManager \<Rightarrow> TenantManager" where
  "apply_registry_op (Register tenant) m = snd (register tenant m)"
| "apply_registry_op (Unregister tenantId) m = snd (unregister tenantId m)"

definition run_registry_ops :: "registry_op list \<Rightarrow> TenantManager \<Rightarrow> TenantManager" where
  "run_registry_ops ops m = fold apply_registry_op ops m"

definition new_TenantManager :: "PathResolver \<Rightarrow> nat \<Rightarrow> TenantManager" where
  "new_TenantManager r maxT = \<lparr> logger = [], pathResolver = r, tenantRegistry = new_TenantRegistry maxT \<rparr>"

section \<open>ResourceLoader.loadConfig\<close>

definition no_options :: resolve_options where
  "no_options = \<lparr> allowTrusted = False \<rparr>"

definition pathExists :: "env \<Rightarrow> PathResolver \<Rightarrow> string \<Rightarrow> resolve_options \<Rightarrow> bool" where
  "pathExists e r filePath options =
     (case (if allowTrusted options then Inr filePath
            else resolvePath (process_cwd e) r filePath options) of
        Inl err \<Rightarrow> False
      | Inr resolvedPath \<Rightarrow> fs_access e resolvedPath)"

text \<open>\<open>module.default || module\<close>.\<close>

definition default_export :: "jsval \<Rightarrow> error + jsval" where
  "default_export moduleNs =
     (case get_prop moduleNs ''default'' of Inl err \<Rightarrow> Inl err | Inr d \<Rightarrow> Inr (js_or d moduleNs))"

text \<open>The body of the per-file \<open>try\<close>: the new configuration, or the error caught.\<close>

definition loadConfigFile :: "env \<Rightarrow> string \<Rightarrow> jsval \<Rightarrow> error + jsval" where
  "loadConfigFile e file config =
     (if suffix ''.json'' file then
        (case readFile_JSON_parse e file of
           Inl err \<Rightarrow> Inl err
         | Inr content \<Rightarrow> deepmerge e config content)
      else
        (case dynamic_import e (''file://'' @ file) of
           Inl err \<Rightarrow> Inl err
         | Inr configModule \<Rightarrow>
             (case default_export configModule of
                Inl err \<Rightarrow> Inl err
              | Inr v \<Rightarrow> deepmerge e config v)))"

fun mergeConfigFiles :: "env \<Rightarrow> string list \<Rightarrow> jsval \<Rightarrow> TenantManager \<Rightarrow> jsval \<times> TenantManager" where
  "mergeConfigFiles e [] config m = (config, m)"
| "mergeConfigFiles e (file # files) config m =
     (case loadConfigFile e file config of
        Inr config' \<Rightarrow>
          mergeConfigFiles e files config'
            (logger_write LogDebug ''Loaded configuration from'' [JStr file] m)
      | Inl err \<Rightarrow>
          mergeConfigFiles e files config
            (logger_write LogError ''Failed to load config from'' [JStr file] m))"

definition loadConfig :: "env \<Rightarrow> string \<Rightarrow> obj \<Rightarrow> bool \<Rightarrow> TenantManager \<Rightarrow> jsval \<times> TenantManager" where
  "loadConfig e configPath defaults isTrusted m =
     (case (if isTrusted then Inr configPath
            else resolvePath (process_cwd e) (pathResolver m) configPath no_options) of
        Inl err \<Rightarrow>
          (JObj defaults, logger_write LogError ''Failed to load config from'' [JStr configPath] m)
      | Inr absolutePath \<Rightarrow>
          (case fastGlob_config e absolutePath of
             Inl err \<Rightarrow>
               (JObj defaults,
                logger_write LogError ''Failed to load config from'' [JStr configPath] m)
           | Inr configFiles \<Rightarrow>
               if length configFiles = 0
               then (JObj defaults,
                     logger_write LogDebug ''No config files found in'' [JStr absolutePath] m)
               else mergeConfigFiles e configFiles (JObj defaults) m))"

text \<open>
  The merge order the specification describes: the files sorted by path. It is compared
  with \<open>loadConfig\<close>, which takes the files as the glob lists them.
\<close>

definition loadConfig_path_sorted ::
    "env \<Rightarrow> string \<Rightarrow> obj \<Rightarrow> bool \<Rightarrow> TenantManager \<Rightarrow> jsval \<times> TenantManager" where
  "loadConfig_path_sorted e configPath defaults isTrusted m =
     loadConfig (e\<lparr> fastGlob_config := (\<lambda>d. map_sum id sort (fastGlob_config e d)) \<rparr>)
       configPath defaults isTrusted m"

section \<open>Tenant adapters\<close>

record module_info =
  rootDir :: string
  packageJson :: jsval

text \<open>\<open>getModuleInfo\<close> marks the package root as trusted before it returns; every
  failure on the way is rethrown as one error.\<close>

definition getModuleInfo :: "env \<Rightarrow> string \<Rightarrow> TenantManager \<Rightarrow> (error + module_info) \<times> TenantManager" where
  "getModuleInfo e specifier m =
     (case resolve_package e specifier of
        Inl err \<Rightarrow>
          (Inl (ExternalFailure (''Error resolving module '' @ specifier @ '': '' @ err_message err)), m)
      | Inr (packageRoot, pkgJson) \<Rightarrow>
          (Inr \<lparr> rootDir = packageRoot, packageJson = pkgJson \<rparr>,
           m\<lparr> pathResolver := addTrustedPath (process_cwd e) packageRoot (pathResolver m) \<rparr>))"

fun canHandle :: "env \<Rightarrow> adapter \<Rightarrow> string \<Rightarrow> TenantManager \<Rightarrow> bool \<times> TenantManager" where
  "canHandle e LocalTenantAdapter source m = (pathExists e (pathResolver m) source no_options, m)"
| "canHandle e NPMTenantAdapter source m =
     (case getModuleInfo e source m of
        (Inl err, m') \<Rightarrow> (False, m')
      | (Inr info, m') \<Rightarrow> (True, m'))"

definition stripPackagePrefix :: "string \<Rightarrow> string" where
  "stripPackagePrefix s =
     (if prefix ''fastify-multitenant-'' s then drop (length ''fastify-multitenant-'') s else s)"

text \<open>\<open>typeof v === "object"\<close>.\<close>

fun typeof_object :: "jsval \<Rightarrow> bool" where
  "typeof_object JNull = True"
| "typeof_object (JArr xs) = True"
| "typeof_object (JObj fs) = True"
| "typeof_object v = False"

fun set_prop :: "jsval \<Rightarrow> string \<Rightarrow> jsval \<Rightarrow> error + jsval" where
  "set_prop (JObj fs) k v = Inr (JObj (obj_set k v fs))"
| "set_prop w k v = Inl TypeError"

text \<open>The body of the \<open>try\<close> of \<open>NPMTenantAdapter.loadConfig\<close>.\<close>

definition npm_loadConfig_try ::
    "env \<Rightarrow> string \<Rightarrow> obj \<Rightarrow> TenantManager \<Rightarrow> (error + jsval) \<times> TenantManager" where
  "npm_loadConfig_try e packageName defaults m =
     (case getModuleInfo e packageName m of
        (Inl err, m1) \<Rightarrow> (Inl err, m1)
      | (Inr moduleInfo, m1) \<Rightarrow>
     (case dynamic_import e packageName of
        Inl err \<Rightarrow> (Inl err, m1)
      | Inr mainModule \<Rightarrow>
     (case default_export mainModule of
        Inl err \<Rightarrow> (Inl err, m1)
      | Inr tenantConfig \<Rightarrow>
     (case get_prop tenantConfig ''config'' of
        Inl err \<Rightarrow> (Inl err, m1)
      | Inr sub \<Rightarrow>
     (case (if typeof_object tenantConfig \<and> truthy sub
            then deepmerge e (JObj defaults) sub else Inr (JObj defaults)) of
        Inl err \<Rightarrow> (Inl err, m1)
      | Inr config0 \<Rightarrow>
     (case set_prop config0 ''path'' (JStr (rootDir moduleInfo)) of
        Inl err \<Rightarrow> (Inl err, m1)
      | Inr config1 \<Rightarrow>
     (case set_prop config1 ''packageName'' (JStr packageName) of
        Inl err \<Rightarrow> (Inl err, m1)
      | Inr config2 \<Rightarrow>
     (case set_prop config2 ''packageJson'' (packageJson moduleInfo) of
        Inl err \<Rightarrow> (Inl err, m1)
      | Inr config3 \<Rightarrow>
     (case set_prop config3 ''isTrustedPath'' (JBool True) of
        Inl err \<Rightarrow> (Inl err, m1)
      | Inr config4 \<Rightarrow>
     (case get_prop tenantConfig ''NAME'' of
        Inl err \<Rightarrow> (Inl err, m1)
      | Inr nm \<Rightarrow>
     (case set_prop config4 ''name''
             (if truthy nm then nm else JStr (stripPackagePrefix packageName)) of
        Inl err \<Rightarrow> (Inl err, m1)
      | Inr config5 \<Rightarrow>
     (case loadConfig e (rootDir moduleInfo) [] True m1 of
        (packageConfig, m2) \<Rightarrow>
     (case deepmerge e config5 packageConfig of
        Inl err \<Rightarrow> (Inl err, m2)
      | Inr config \<Rightarrow> (Inr config, m2))))))))))))))"

fun adapter_loadConfig ::
    "env \<Rightarrow> adapter \<Rightarrow> string \<Rightarrow> obj \<Rightarrow> TenantManager \<Rightarrow> (error + jsval) \<times> TenantManager" where
  "adapter_loadConfig e LocalTenantAdapter tenantPath defaults m =
     (case loadConfig e tenantPath defaults False m of (config, m') \<Rightarrow> (Inr config, m'))"
| "adapter_loadConfig e NPMTenantAdapter packageName defaults m =
     (case npm_loadConfig_try e packageName defaults m of
        (Inr config, m') \<Rightarrow> (Inr config, m')
      | (Inl err, m') \<Rightarrow>
          (Inr (JObj (obj_set ''error'' (JStr (err_message err)) (obj_set ''path'' JNull defaults))),
           logger_write LogError ''Failed to load NPM tenant config for'' [JStr packageName] m'))"

subsection \<open>Loading a tenant's resources\<close>

definition addService :: "string \<Rightarrow> jsval \<Rightarrow> TenantContext \<Rightarrow> TenantContext" where
  "addService name service ctx = ctx\<lparr> ctx_services := obj_set name service (ctx_services ctx) \<rparr>"

definition addPlugin :: "string \<Rightarrow> TenantContext \<Rightarrow> TenantContext" where
  "addPlugin pluginName ctx = ctx\<lparr> ctx_plugins := set_add pluginName (ctx_plugins ctx) \<rparr>"

definition addServices :: "obj \<Rightarrow> TenantContext \<Rightarrow> TenantContext" where
  "addServices services ctx = fold (\<lambda>(name, service). addService name service) services ctx"

fun loadPluginDirs :: "env \<Rightarrow> string \<Rightarrow> bool \<Rightarrow> string list \<Rightarrow> TenantContext \<Rightarrow> TenantContext" where
  "loadPluginDirs e pluginsPath trusted [] ctx = ctx"
| "loadPluginDirs e pluginsPath trusted (pluginName # pluginDirs) ctx =
     (let pluginPath = path_join [pluginsPath, pluginName];
          success = rl_loadPlugin e pluginPath trusted
      in loadPluginDirs e pluginsPath trusted pluginDirs
           (if success then addPlugin pluginName ctx else ctx))"

definition load_schemas_step ::
    "env \<Rightarrow> bool \<Rightarrow> string \<Rightarrow> TenantContext \<Rightarrow> TenantManager \<Rightarrow> TenantContext \<times> TenantManager" where
  "load_schemas_step e trusted tenantPath ctx m =
     (let schemaPath = path_join [tenantPath, ''schemas'']
      in if pathExists e (pathResolver m) schemaPath \<lparr> allowTrusted = trusted \<rparr>
         then (if rl_loadSchemas e schemaPath trusted
               then (ctx\<lparr> ctx_schemas := set_add schemaPath (ctx_schemas ctx) \<rparr>,
                     if trusted
                     then logger_write LogInfo ''Loaded schemas for NPM tenant'' [JStr (ctx_id ctx)] m
                     else m)
               else (ctx, m))
         else (ctx, m))"

definition load_services_step ::
    "env \<Rightarrow> bool \<Rightarrow> string \<Rightarrow> TenantContext \<Rightarrow> TenantManager \<Rightarrow> TenantContext \<times> TenantManager" where
  "load_services_step e trusted tenantPath ctx m =
     (let servicesPath = path_join [tenantPath, ''services'']
      in if pathExists e (pathResolver m) servicesPath \<lparr> allowTrusted = trusted \<rparr>
         then (let services = rl_loadServices e servicesPath (ctx_config ctx) trusted
               in (addServices services ctx,
                   logger_write LogInfo
                     (if trusted then ''Loaded services for NPM tenant''
                      else ''Loaded services for tenant'')
                     [JNum (int (length services)), JStr (ctx_id ctx)] m))
         else (ctx, m))"

definition load_routes_step ::
    "env \<Rightarrow> bool \<Rightarrow> string \<Rightarrow> TenantContext \<Rightarrow> TenantManager \<Rightarrow> TenantContext \<times> TenantManager" where
  "load_routes_step e trusted tenantPath ctx m =
     (let routesPath = path_join [tenantPath, ''routes'']
      in if pathExists e (pathResolver m) routesPath \<lparr> allowTrusted = trusted \<rparr>
         then (if rl_loadPlugin e routesPath trusted
               then (ctx\<lparr> ctx_routes := set_add routesPath (ctx_routes ctx) \<rparr>,
                     if trusted
                     then logger_write LogInfo ''Loaded routes for NPM tenant'' [JStr (ctx_id ctx)] m
                     else m)
               else (ctx, m))
         else (ctx, m))"

text \<open>The plugin directories: a failing \<open>readdir\<close> aborts the local adapter's load,
  and is logged and passed over by the package adapter.\<close>

definition load_plugins_step ::
    "env \<Rightarrow> bool \<Rightarrow> string \<Rightarrow> TenantContext \<Rightarrow> TenantManager \<Rightarrow> (error + TenantContext) \<times> TenantManager" where
  "load_plugins_step e trusted tenantPath ctx m =
     (let pluginsPath = path_join [tenantPath, ''plugins'']
      in if pathExists e (pathResolver m) pluginsPath \<lparr> allowTrusted = trusted \<rparr>
         then (case fs_readdir e pluginsPath of
                 Inr pluginDirs \<Rightarrow> (Inr (loadPluginDirs e pluginsPath trusted pluginDirs ctx), m)
               | Inl err \<Rightarrow>
                   if trusted
                   then (Inr ctx,
                         logger_write LogDebug ''No additional plugins found for NPM tenant''
                           [JStr (ctx_id ctx)] m)
                   else (Inl err, m))
         else (Inr ctx, m))"

text \<open>Schemas, services, plugins, routes, in this order, under a tenant directory or
  a package root.\<close>

definition load_directory_resources ::
    "env \<Rightarrow> bool \<Rightarrow> string \<Rightarrow> TenantContext \<Rightarrow> TenantManager \<Rightarrow> (error + TenantContext) \<times> TenantManager" where
  "load_directory_resources e trusted tenantPath ctx m =
     (case load_schemas_step e trusted tenantPath ctx m of
        (ctx1, m1) \<Rightarrow>
     (case load_services_step e trusted tenantPath ctx1 m1 of
        (ctx2, m2) \<Rightarrow>
     (case load_plugins_step e trusted tenantPath ctx2 m2 of
        (Inl err, m3) \<Rightarrow> (Inl err, m3)
      | (Inr ctx3, m3) \<Rightarrow>
     (case load_routes_step e trusted tenantPath ctx3 m3 of
        (ctx4, m4) \<Rightarrow> (Inr ctx4, m4)))))"

definition local_loadResources ::
    "env \<Rightarrow> TenantContext \<Rightarrow> TenantManager \<Rightarrow> (error + TenantContext) \<times> TenantManager" where
  "local_loadResources e ctx m =
     (case get_prop (ctx_config ctx) ''path'' of
        Inl err \<Rightarrow> (Inl err, m)
      | Inr p \<Rightarrow>
     (case get_prop (ctx_config ctx) ''source'' of
        Inl err \<Rightarrow> (Inl err, m)
      | Inr src \<Rightarrow>
     (case (case js_or p src of
              JStr tenantPath \<Rightarrow> load_directory_resources e False tenantPath ctx m
            | _ \<Rightarrow> (Inl TypeError, m)) of
        (Inl err, m') \<Rightarrow>
          (Inl err,
           logger_write LogError ''Failed to load resources for local tenant'' [JStr (ctx_id ctx)] m')
      | (Inr ctx', m') \<Rightarrow> (Inr ctx', m'))))"

definition loadPackageResources ::
    "env \<Rightarrow> TenantContext \<Rightarrow> TenantManager \<Rightarrow> (error + TenantContext) \<times> TenantManager" where
  "loadPackageResources e ctx m =
     (case get_prop (ctx_config ctx) ''path'' of
        Inl err \<Rightarrow> (Inl err, m)
      | Inr p \<Rightarrow>
     (let m0 = logger_write LogInfo ''Loading package resources from'' [p] m
      in case (case p of
                 JStr packagePath \<Rightarrow> load_directory_resources e True packagePath ctx m0
               | _ \<Rightarrow> (Inl TypeError, m0)) of
           (Inl err, m') \<Rightarrow>
             (Inl err,
              logger_write LogError ''Failed to load package resources for NPM tenant''
                [JStr (ctx_id ctx)] m')
         | (Inr ctx', m') \<Rightarrow> (Inr ctx', m')))"

text \<open>The body of the \<open>try\<close> of \<open>NPMTenantAdapter.loadResources\<close>. A
  specifier that is not a string is taken to fail to import.\<close>

definition npm_loadResources_try ::
    "env \<Rightarrow> jsval \<Rightarrow> TenantContext \<Rightarrow> TenantManager \<Rightarrow> (error + TenantContext) \<times> TenantManager" where
  "npm_loadResources_try e packageName ctx m =
     (case (case packageName of JStr pn \<Rightarrow> dynamic_import e pn | _ \<Rightarrow> Inl TypeError) of
        Inl err \<Rightarrow> (Inl err, m)
      | Inr mainModule \<Rightarrow>
     (case default_export mainModule of
        Inl err \<Rightarrow> (Inl err, m)
      | Inr tenantExport \<Rightarrow>
     (case (case tenantExport of
              JFun f \<Rightarrow>
                (case app_register e tenantExport (ctx_config ctx) of
                   Inl err \<Rightarrow> (Inl err, m)
                 | Inr u \<Rightarrow>
                     (Inr (case packageName of JStr pn \<Rightarrow> addPlugin pn ctx | _ \<Rightarrow> ctx),
                      logger_write LogInfo ''Registered NPM tenant as plugin'' [JStr (ctx_id ctx)] m))
            | _ \<Rightarrow> (Inr ctx, m)) of
        (Inl err, m1) \<Rightarrow> (Inl err, m1)
      | (Inr ctx1, m1) \<Rightarrow>
     (case get_prop (ctx_config ctx) ''path'' of
        Inl err \<Rightarrow> (Inl err, m1)
      | Inr p \<Rightarrow>
     (case get_prop (ctx_config ctx) ''isTrustedPath'' of
        Inl err \<Rightarrow> (Inl err, m1)
      | Inr t \<Rightarrow>
          if truthy p \<and> truthy t then loadPackageResources e ctx1 m1 else (Inr ctx1, m1))))))"

definition npm_loadResources ::
    "env \<Rightarrow> TenantContext \<Rightarrow> TenantManager \<Rightarrow> (error + TenantContext) \<times> TenantManager" where
  "npm_loadResources e ctx m =
     (case get_prop (ctx_config ctx) ''packageName'' of
        Inl err \<Rightarrow> (Inl err, m)
      | Inr packageName \<Rightarrow>
     (case npm_loadResources_try e packageName ctx m of
        (Inl err, m') \<Rightarrow>
          (Inl err,
           logger_write LogError ''Failed to load resources for NPM tenant'' [JStr (ctx_id ctx)] m')
      | (Inr ctx', m') \<Rightarrow> (Inr ctx', m')))"

fun adapter_loadResources ::
    "env \<Rightarrow> adapter \<Rightarrow> TenantContext \<Rightarrow> TenantManager \<Rightarrow> (error + TenantContext) \<times> TenantManager" where
  "adapter_loadResources e LocalTenantAdapter ctx m = local_loadResources e ctx m"
| "adapter_loadResources e NPMTenantAdapter ctx m = npm_loadResources e ctx m"

section \<open>TenantContext construction and TenantFactory\<close>

definition new_TenantContext :: "jsval \<Rightarrow> jsval \<Rightarrow> adapter \<Rightarrow> error + TenantContext" where
  "new_TenantContext tid config a =
     (case validateTenantId tid of
        Inl err \<Rightarrow> Inl err
      | Inr validId \<Rightarrow>
     (case get_prop config ''active'' of
        Inl err \<Rightarrow> Inl err
      | Inr act \<Rightarrow>
          Inr \<lparr> ctx_id = validId, ctx_config = config, ctx_adapter = a, ctx_services = [],
                ctx_plugins = [], ctx_routes = [], ctx_schemas = [],
                ctx_active = (act \<noteq> JBool False), ctx_type = getType a \<rparr>))"

text \<open>The tenant id \<open>buildTenant\<close> starts from: the explicit id when it is truthy,
  else the package name without its prefix for the package adapter, else the directory
  name of the source.\<close>

definition determineTenantId :: "jsval \<Rightarrow> adapter \<Rightarrow> string \<Rightarrow> jsval" where
  "determineTenantId customTenantId a source =
     (if \<not> truthy customTenantId then
        (if getType a = ''npm'' then JStr (stripPackagePrefix source)
         else JStr (path_basename source))
      else customTenantId)"

definition tenantDefaults :: "jsval \<Rightarrow> string \<Rightarrow> obj" where
  "tenantDefaults tenantId source =
     [(''id'', tenantId), (''name'', tenantId), (''active'', JBool True), (''source'', JStr source)]"

text \<open>The part of \<open>buildTenant\<close> after the configuration is loaded, inside its
  \<open>try\<close>: \<open>Inr None\<close> is the deliberate skip of an inactive tenant.\<close>

definition buildFromConfig ::
    "env \<Rightarrow> adapter \<Rightarrow> jsval \<Rightarrow> jsval \<Rightarrow> TenantManager
       \<Rightarrow> (error + TenantContext option) \<times> TenantManager" where
  "buildFromConfig e a tenantId config m =
     (case get_prop config ''active'' of
        Inl err \<Rightarrow> (Inl err, m)
      | Inr act \<Rightarrow>
          if \<not> truthy act
          then (Inr None, logger_write LogInfo ''Tenant is inactive, skipping'' [tenantId] m)
          else
     (case get_prop config ''name'' of
        Inl err \<Rightarrow> (Inl err, m)
      | Inr nm \<Rightarrow>
     (case new_TenantContext (js_or nm tenantId) config a of
        Inl err \<Rightarrow> (Inl err, m)
      | Inr tenantContext \<Rightarrow>
     (case adapter_loadResources e a tenantContext m of
        (Inl err, m') \<Rightarrow> (Inl err, m')
      | (Inr tenantContext', m') \<Rightarrow>
          (Inr (Some tenantContext'),
           logger_write LogInfo ''Tenant loaded successfully''
             [JStr (ctx_id tenantContext'), JStr (getType a)] m')))))"

definition buildTenant ::
    "env \<Rightarrow> string \<Rightarrow> adapter \<Rightarrow> jsval \<Rightarrow> TenantManager \<Rightarrow> TenantContext option \<times> TenantManager" where
  "buildTenant e source a customTenantId m =
     (let tenantId = determineTenantId customTenantId a source
      in case adapter_loadConfig e a source (tenantDefaults tenantId source) m of
           (Inl err, m1) \<Rightarrow>
             (None, logger_write LogError ''Failed to build tenant from'' [JStr source] m1)
         | (Inr config, m1) \<Rightarrow>
             (case buildFromConfig e a tenantId config m1 of
                (Inl err, m2) \<Rightarrow>
                  (None, logger_write LogError ''Failed to build tenant from'' [JStr source] m2)
              | (Inr built, m2) \<Rightarrow> (built, m2)))"

definition factory_adapters :: "adapter list" where
  "factory_adapters = [LocalTenantAdapter, NPMTenantAdapter]"

fun createTenant_from ::
    "env \<Rightarrow> adapter list \<Rightarrow> string \<Rightarrow> jsval \<Rightarrow> TenantManager
       \<Rightarrow> (error + TenantContext option) \<times> TenantManager" where
  "createTenant_from e [] source tenantId m = (Inl (NoAdapterFound (JStr source)), m)"
| "createTenant_from e (a # as) source tenantId m =
     (case canHandle e a source m of
        (True, m1) \<Rightarrow> (case buildTenant e source a tenantId m1 of (built, m2) \<Rightarrow> (Inr built, m2))
      | (False, m1) \<Rightarrow> createTenant_from e as source tenantId m1)"

text \<open>A source that is not a string is refused by both adapters (the path and the
  module resolution raise inside their \<open>try\<close>), so no adapter is found for it.\<close>

definition createTenant ::
    "env \<Rightarrow> jsval \<Rightarrow> jsval \<Rightarrow> TenantManager \<Rightarrow> (error + TenantContext option) \<times> TenantManager" where
  "createTenant e source tenantId m =
     (case source of
        JStr src \<Rightarrow> createTenant_from e factory_adapters src tenantId m
      | _ \<Rightarrow> (Inl (NoAdapterFound source), m))"

section \<open>TenantManager\<close>

definition loadTenant ::
    "env \<Rightarrow> jsval \<Rightarrow> jsval \<Rightarrow> TenantManager \<Rightarrow> TenantContext option \<times> TenantManager" where
  "loadTenant e source customTenantId m =
     (case createTenant e source customTenantId m of
        (Inl err, m1) \<Rightarrow> (None, logger_write LogError ''Failed to load tenant from'' [source] m1)
      | (Inr None, m1) \<Rightarrow> (None, m1)
      | (Inr (Some tenant), m1) \<Rightarrow>
          (case register tenant m1 of
             (Inl err, m2) \<Rightarrow>
               (None, logger_write LogError ''Failed to load tenant from'' [source] m2)
           | (Inr u, m2) \<Rightarrow> (Some tenant, m2)))"

definition reloadTenant ::
    "env \<Rightarrow> string \<Rightarrow> TenantManager \<Rightarrow> (error + TenantContext option) \<times> TenantManager" where
  "reloadTenant e tenantId m =
     (case getTenant m tenantId of
        None \<Rightarrow> (Inl (TenantNotFound tenantId), m)
      | Some existingTenant \<Rightarrow>
          (case get_prop (ctx_config existingTenant) ''source'' of
             Inl err \<Rightarrow> (Inl err, m)
           | Inr source \<Rightarrow>
               (case unregister tenantId m of
                  (u, m1) \<Rightarrow>
                    (case loadTenant e source (JStr tenantId) m1 of
                       (reloaded, m2) \<Rightarrow> (Inr reloaded, m2)))))"

section \<open>MultiSourceTenantStrategy\<close>

text \<open>A request as the strategy reads it: \<open>hostname\<close> and \<open>url\<close> may be absent,
  \<open>headers\<close> is an object of header values.\<close>

record request =
  hostname :: "string option"
  url :: "string option"
  headers :: obj

text \<open>\<open>/^([^.]+)\./\<close>: a non-empty run without a dot at the start, followed by a dot;
  the result is the captured run.\<close>

definition hostnameMatch :: "string \<Rightarrow> string option" where
  "hostnameMatch h =
     (let run = takeWhile (\<lambda>c. c \<noteq> CHR ''.'') h
      in if run \<noteq> [] \<and> length run < length h then Some run else None)"

text \<open>\<open>/^\/([^/]+)/\<close>: a slash, then a non-empty run without a slash.\<close>

definition pathMatch :: "string \<Rightarrow> string option" where
  "pathMatch u =
     (case u of
        [] \<Rightarrow> None
      | c # cs \<Rightarrow>
          if c = CHR ''/'' \<and> takeWhile (\<lambda>d. d \<noteq> CHR ''/'') cs \<noteq> []
          then Some (takeWhile (\<lambda>d. d \<noteq> CHR ''/'') cs) else None)"

definition header_value :: "obj \<Rightarrow> string \<Rightarrow> jsval" where
  "header_value hs k = (case map_of hs k of None \<Rightarrow> JUndefined | Some v \<Rightarrow> v)"

text \<open>The third strategy and the final \<open>return\<close> of the \<open>try\<close>.\<close>

definition extract_from_header :: "request \<Rightarrow> error + string" where
  "extract_from_header req =
     (if truthy (header_value (headers req) ''x-tenant-id'')
      then validateTenantId (header_value (headers req) ''x-tenant-id'')
      else Inr ''default-tenant'')"

text \<open>The body of the \<open>try\<close> of \<open>extractTenantId\<close>.\<close>

definition extractTenantId_try :: "request \<Rightarrow> error + string" where
  "extractTenantId_try req =
     (case Option.bind (hostname req) hostnameMatch of
        Some sub \<Rightarrow> validateTenantId (JStr sub)
      | None \<Rightarrow>
          (case Option.bind (url req) pathMatch of
             Some seg \<Rightarrow>
               if seg \<noteq> ''api'' \<and> seg \<noteq> ''health''
               then validateTenantId (JStr seg)
               else extract_from_header req
           | None \<Rightarrow> extract_from_header req))"

definition extractTenantId :: "request \<Rightarrow> string" where
  "extractTenantId req =
     (case extractTenantId_try req of Inl err \<Rightarrow> ''default-tenant'' | Inr tenantId \<Rightarrow> tenantId)"










section \<open>The configuration a source is built from\<close>

text \<open>The adapter \<open>createTenant\<close> settles on: the first of the list that can handle
  the source.\<close>

fun selectAdapter ::
    "env \<Rightarrow> adapter list \<Rightarrow> string \<Rightarrow> TenantManager \<Rightarrow> adapter option \<times> TenantManager" where
  "selectAdapter e [] source m = (None, m)"
| "selectAdapter e (a # as) source m =
     (case canHandle e a source m of
        (True, m1) \<Rightarrow> (Some a, m1)
      | (False, m1) \<Rightarrow> selectAdapter e as source m1)"

text \<open>The adapter, the starting tenant id and the merged configuration that
  \<open>buildTenant\<close> works with for a source, and the state it has reached by then.\<close>

definition mergedTenantConfig ::
    "env \<Rightarrow> string \<Rightarrow> jsval \<Rightarrow> TenantManager \<Rightarrow> (adapter \<times> jsval \<times> jsval \<times> TenantManager) option" where
  "mergedTenantConfig e source customTenantId m =
     (case selectAdapter e factory_adapters source m of
        (None, m0) \<Rightarrow> None
      | (Some a, m0) \<Rightarrow>
          (let tenantId = determineTenantId customTenantId a source
           in case adapter_loadConfig e a source (tenantDefaults tenantId source) m0 of
                (Inl err, m1) \<Rightarrow> None
              | (Inr config, m1) \<Rightarrow> Some (a, tenantId, config, m1)))"

section \<open>A sample deployment\<close>

text \<open>
  One tenant directory \<open>/srv/app/tenants/acme\<close> under the base directory \<open>/srv/app\<close>,
  holding the given configuration files and nothing else; no package resolves. The merge
  on flat configuration objects overrides key by key.
\<close>

definition flat_merge :: "jsval \<Rightarrow> jsval \<Rightarrow> error + jsval" where
  "flat_merge target source =
     (case (target, source) of
        (JObj t, JObj s) \<Rightarrow> Inr (JObj (fold (\<lambda>(k, v). obj_set k v) s t))
      | _ \<Rightarrow> Inl TypeError)"

definition sample_env :: "(string \<times> (error + jsval)) list \<Rightarrow> env" where
  "sample_env files =
     \<lparr> process_cwd = ''/srv/app'',
       fs_access = (\<lambda>p. p = ''/srv/app/tenants/acme''),
       fastGlob_config =
         (\<lambda>d. Inr (if d = ''/srv/app/tenants/acme'' then map fst files else [])),
       readFile_JSON_parse =
         (\<lambda>f. case map_of files f of None \<Rightarrow> Inl (ExternalFailure ''ENOENT'') | Some r \<Rightarrow> r),
       dynamic_import =
         (\<lambda>spec. case map_of files (drop (length ''file://'') spec) of
                    None \<Rightarrow> Inl (ExternalFailure ''ERR_MODULE_NOT_FOUND'')
                  | Some r \<Rightarrow> map_sum id (\<lambda>v. JObj [(''default'', v)]) r),
       deepmerge = flat_merge,
       resolve_package = (\<lambda>spec. Inl (ExternalFailure ''ERR_MODULE_NOT_FOUND'')),
       fs_readdir = (\<lambda>d. Inl (ExternalFailure ''ENOENT'')),
       rl_loadSchemas = (\<lambda>p t. False),
       rl_loadServices = (\<lambda>p c t. []),
       rl_loadPlugin = (\<lambda>p t. False),
       app_register = (\<lambda>f c. Inr ()) \<rparr>"

definition sample_manager :: TenantManager where
  "sample_manager = new_TenantManager (new_PathResolver ''/srv/app'' ''/srv/app'') 50"

definition acme_dir :: string where
  "acme_dir = ''/srv/app/tenants/acme''"

definition acme_json :: "jsval \<Rightarrow> env" where
  "acme_json content = sample_env [(''/srv/app/tenants/acme/config.json'', Inr content)]"

subsection \<open>Deployments used in the examples\<close>

text \<open>The sample tenant with an empty configuration file, with \<open>active: false\<close>,
  with a name of its own, and with a name the validator refuses; the manager after the
  first of them has been loaded.\<close>

definition plain_env :: env where
  "plain_env = acme_json (JObj [])"

definition inactive_env :: env where
  "inactive_env = acme_json (JObj [(''active'', JBool False)])"

definition renamed_env :: env where
  "renamed_env = acme_json (JObj [(''name'', JStr ''sample-tenant'')])"

definition invalid_name_env :: env where
  "invalid_name_env = acme_json (JObj [(''name'', JStr ''acme corp'')])"

definition loaded_manager :: TenantManager where
  "loaded_manager = snd (loadTenant plain_env (JStr acme_dir) JNull sample_manager)"

text \<open>The glob expands the braces of \<open>config.{json,js,mjs}\<close> and lists the files in
  the order \<open>config.js\<close>, \<open>config.mjs\<close>, \<open>config.json\<close>. A directory with all three
  files, each setting \<open>name\<close>; and one whose first listed file does not load.\<close>

definition three_file_env :: env where
  "three_file_env =
     sample_env [(''/srv/app/tenants/acme/config.js'', Inr (JObj [(''name'', JStr ''from-js'')])),
                 (''/srv/app/tenants/acme/config.mjs'', Inr (JObj [(''name'', JStr ''from-mjs'')])),
                 (''/srv/app/tenants/acme/config.json'', Inr (JObj [(''name'', JStr ''from-json'')]))]"

definition broken_file_env :: env where
  "broken_file_env =
     sample_env [(''/srv/app/tenants/acme/config.js'', Inl (ExternalFailure ''SyntaxError'')),
                 (''/srv/app/tenants/acme/config.mjs'', Inr (JObj [(''region'', JStr ''eu'')])),
                 (''/srv/app/tenants/acme/config.json'', Inr (JObj [(''name'', JStr ''from-json'')]))]"

text \<open>A registry with room for one tenant, and contexts to register in it.\<close>

definition sample_context :: "string \<Rightarrow> TenantContext" where
  "sample_context i =
     \<lparr> ctx_id = i, ctx_config = JObj (tenantDefaults (JStr i) (''/srv/app/tenants/'' @ i)),
       ctx_adapter = LocalTenantAdapter, ctx_services = [], ctx_plugins = [], ctx_routes = [],
       ctx_schemas = [], ctx_active = True, ctx_type = ''local'' \<rparr>"

definition single_slot_manager :: TenantManager where
  "single_slot_manager = new_TenantManager (new_PathResolver ''/srv/app'' ''/srv/app'') 1"

section \<open>Notions used in the statements\<close>

text \<open>The registry invariant: distinct keys, and no more entries than \<open>maxTenants\<close>.\<close>

definition registry_ok :: "TenantManager \<Rightarrow> bool" where
  "registry_ok m \<longleftrightarrow>
     distinct (map fst (tenants (tenantRegistry m))) \<and>
     length (tenants (tenantRegistry m)) \<le> maxTenants (tenantRegistry m)"

text \<open>One turn of the merge loop of \<open>loadConfig\<close>, seen from the configuration: a
  file that loads is merged, a file that fails leaves the configuration as it was.\<close>

definition mergeOrSkip :: "env \<Rightarrow> string \<Rightarrow> jsval \<Rightarrow> jsval" where
  "mergeOrSkip e file config =
     (case loadConfigFile e file config of Inl err \<Rightarrow> config | Inr config' \<Rightarrow> config')"

section \<open>Path resolution\<close>

lemma resolvePath_relative:
  "\<not> isAbsolute p \<Longrightarrow>
   resolvePath cwd r p options =
     (if prefix (baseDir r) (path_resolve cwd [baseDir r, p]) \<or>
         isTrustedPath cwd r (path_resolve cwd [baseDir r, p])
      then Inr (path_resolve cwd [baseDir r, p])
      else Inl (PathTraversalAttempt p))"
  by (simp add: resolvePath_def Let_def)

text \<open>
  C9. An absolute input is returned unchanged by \<open>resolvePath\<close>, for every option
  value and every resolver state, also when it lies outside the base directory and
  outside every trusted root: the traversal rejection is reached by relative inputs only,
  and the trusted-root test on an absolute input does not change the result.
\<close>

theorem resolvePath_absolute_unchanged:
  "isAbsolute p \<Longrightarrow> resolvePath cwd r p options = Inr p"
  by (simp add: resolvePath_def)

theorem resolvePath_absolute_unchanged_witness:
  "isAbsolute ''/etc/passwd'' \<and>
   \<not> prefix ''/srv/app'' ''/etc/passwd'' \<and>
   resolvePath ''/work'' \<lparr> baseDir = ''/srv/app'', trustedPackagePaths = [] \<rparr> ''/etc/passwd''
     \<lparr> allowTrusted = True \<rparr> = Inr ''/etc/passwd''"
  using resolvePath_absolute_unchanged [of "''/etc/passwd''" "''/work''"
      "\<lparr> baseDir = ''/srv/app'', trustedPackagePaths = [] \<rparr>" "\<lparr> allowTrusted = True \<rparr>"]
  by (simp add: isAbsolute_def)

text \<open>
  C1. A relative input is joined to the base directory, and is to be rejected exactly
  when the resolved path lies outside the base directory and outside every trusted root.
  With base directory \<open>/srv/app\<close> and no trusted root, the input
  \<open>../app-evil/secret\<close> resolves to \<open>/srv/app-evil/secret\<close>, a sibling of the base
  directory and not under it; \<open>resolvePath\<close> returns it instead of raising, because the
  test is on the characters of the path: the sibling's name starts with the base
  directory's. The input \<open>../../etc/passwd\<close> is rejected there, as it should be.
\<close>

theorem resolvePath_accepts_sibling_of_base:
  "resolvePath ''/work'' \<lparr> baseDir = ''/srv/app'', trustedPackagePaths = [] \<rparr>
      ''../app-evil/secret'' no_options = Inr ''/srv/app-evil/secret'' \<and>
   \<not> isAbsolute ''../app-evil/secret'' \<and>
   \<not> lies_under ''/srv/app'' ''/srv/app-evil/secret'' \<and>
   resolvePath ''/work'' \<lparr> baseDir = ''/srv/app'', trustedPackagePaths = [] \<rparr>
      ''../../etc/passwd'' no_options = Inl (PathTraversalAttempt ''../../etc/passwd'')"
  by code_simp

section \<open>Identifier validation\<close>

lemma allowed_char_code:
  "allowed_char c \<longleftrightarrow>
     (97 \<le> (of_char c :: nat) \<and> (of_char c :: nat) \<le> 122) \<or>
     (65 \<le> (of_char c :: nat) \<and> (of_char c :: nat) \<le> 90) \<or>
     (48 \<le> (of_char c :: nat) \<and> (of_char c :: nat) \<le> 57) \<or>
     (of_char c :: nat) = 45 \<or> (of_char c :: nat) = 95"
proof -
  have d: "c = CHR ''-'' \<longleftrightarrow> (of_char c :: nat) = 45"
    using of_char_eq_iff [of c "CHR ''-''", where ?'a = nat] by simp
  have u: "c = CHR ''_'' \<longleftrightarrow> (of_char c :: nat) = 95"
    using of_char_eq_iff [of c "CHR ''_''", where ?'a = nat] by simp
  show ?thesis unfolding allowed_char_def d u by (simp add: less_eq_char_def)
qed

lemma validateTenantId_JStr:
  "validateTenantId (JStr s) =
     (if s = [] then Inl TenantIdNotNonEmptyString
      else if list_all allowed_char s then Inr s else Inl TenantIdInvalidCharacters)"
proof -
  have eq: "filter allowed_char s = s \<longleftrightarrow> list_all allowed_char s"
    by (simp add: filter_id_conv list_all_iff)
  show ?thesis
  proof (cases "list_all allowed_char s")
    case True
    with eq have "filter allowed_char s = s" by simp
    then show ?thesis using True by (simp add: validateTenantId_def)
  next
    case False
    with eq have "filter allowed_char s \<noteq> s" by simp
    then show ?thesis using False by (simp add: validateTenantId_def)
  qed
qed

lemma validateTenantId_not_string:
  "\<forall>s. v \<noteq> JStr s \<Longrightarrow> validateTenantId v = Inl TenantIdNotNonEmptyString"
  by (cases v) (auto simp: validateTenantId_def)

lemma validateTenantId_Inr_iff:
  "validateTenantId v = Inr s \<longleftrightarrow> v = JStr s \<and> s \<noteq> [] \<and> list_all allowed_char s"
proof (cases "\<exists>t. v = JStr t")
  case True
  then obtain t where "v = JStr t" by blast
  then show ?thesis by (auto simp: validateTenantId_JStr)
next
  case False
  then have "validateTenantId v = Inl TenantIdNotNonEmptyString"
    by (intro validateTenantId_not_string) blast
  with False show ?thesis by auto
qed

lemma validateTenantId_Inl_invalid:
  "validateTenantId v = Inl err \<Longrightarrow> invalid_identifier err"
proof (cases "\<exists>t. v = JStr t")
  case True
  then obtain t where "v = JStr t" by blast
  moreover assume "validateTenantId v = Inl err"
  ultimately show ?thesis
    by (auto simp: validateTenantId_JStr invalid_identifier_def split: if_splits)
next
  case False
  then have "validateTenantId v = Inl TenantIdNotNonEmptyString"
    by (intro validateTenantId_not_string) blast
  moreover assume "validateTenantId v = Inl err"
  ultimately show ?thesis by (simp add: invalid_identifier_def)
qed

section \<open>Request identification\<close>














text \<open>
  C10. When an earlier sub-strategy produces a candidate that the validator refuses,
  \<open>extractTenantId\<close> returns \<open>default-tenant\<close> whatever the later sources hold: a
  refused hostname subdomain hides the URL and the header, and a refused URL segment
  hides the header.
\<close>

theorem extractTenantId_invalid_candidate_stops:
  "(hostnameMatch h = Some sub \<and> validateTenantId (JStr sub) = Inl err \<longrightarrow>
      extractTenantId \<lparr> hostname = Some h, url = u, headers = hs \<rparr> = ''default-tenant'') \<and>
   (Option.bind ho hostnameMatch = None \<and> pathMatch p = Some seg \<and> seg \<noteq> ''api'' \<and>
    seg \<noteq> ''health'' \<and> validateTenantId (JStr seg) = Inl err \<longrightarrow>
      extractTenantId \<lparr> hostname = ho, url = Some p, headers = hs \<rparr> = ''default-tenant'')"
  by (simp add: extractTenantId_def extractTenantId_try_def)

theorem extractTenantId_invalid_candidate_stops_witness:
  "hostnameMatch ''ac!me.example.com'' = Some ''ac!me'' \<and>
   validateTenantId (JStr ''ac!me'') = Inl TenantIdInvalidCharacters \<and>
   validateTenantId (JStr ''acme'') = Inr ''acme'' \<and>
   extractTenantId \<lparr> hostname = Some ''ac!me.example.com'', url = Some ''/users'',
       headers = [(''x-tenant-id'', JStr ''acme'')] \<rparr> = ''default-tenant'' \<and>
   Option.bind (Some ''localhost'') hostnameMatch = None \<and>
   pathMatch ''/ac.me/users'' = Some ''ac.me'' \<and>
   validateTenantId (JStr ''ac.me'') = Inl TenantIdInvalidCharacters \<and>
   extractTenantId \<lparr> hostname = Some ''localhost'', url = Some ''/ac.me/users'',
       headers = [(''x-tenant-id'', JStr ''acme'')] \<rparr> = ''default-tenant''"
proof -
  have h1: "hostnameMatch ''ac!me.example.com'' = Some ''ac!me''" by code_simp
  have h2: "validateTenantId (JStr ''ac!me'') = Inl TenantIdInvalidCharacters" by code_simp
  have h3: "validateTenantId (JStr ''acme'') = Inr ''acme''" by code_simp
  have h4: "Option.bind (Some ''localhost'') hostnameMatch = None" by code_simp
  have h5: "pathMatch ''/ac.me/users'' = Some ''ac.me''" by code_simp
  have h6: "validateTenantId (JStr ''ac.me'') = Inl TenantIdInvalidCharacters" by code_simp
  have h7: "''ac.me'' \<noteq> ''api'' \<and> ''ac.me'' \<noteq> ''health''" by simp
  from extractTenantId_invalid_candidate_stops
         [of "''ac!me.example.com''" "''ac!me''" TenantIdInvalidCharacters "Some ''/users''"
             "[(''x-tenant-id'', JStr ''acme'')]" "Some ''localhost''" "''/ac.me/users''" "''ac.me''"]
       h1 h2 h3 h4 h5 h6 h7
  show ?thesis by simp
qed

section \<open>The registry\<close>

lemma map_of_obj_set: "map_of (obj_set k v ps) = (map_of ps)(k \<mapsto> v)"
  by (induction ps) auto

lemma length_obj_set:
  "length (obj_set k v ps) = (if map_of ps k = None then Suc (length ps) else length ps)"
  by (induction ps) auto

lemma keys_obj_set: "set (map fst (obj_set k v ps)) = insert k (set (map fst ps))"
  by (induction ps) auto

lemma distinct_obj_set: "distinct (map fst ps) \<Longrightarrow> distinct (map fst (obj_set k v ps))"
proof (induction ps)
  case Nil
  then show ?case by simp
next
  case (Cons p ps)
  have "set (map fst (obj_set k v ps)) = insert k (set (map fst ps))" by (rule keys_obj_set)
  with Cons show ?case by auto
qed

lemma map_of_obj_delete: "map_of (obj_delete k ps) = (map_of ps)(k := None)"
  by (induction ps) (auto simp: obj_delete_def)

lemma length_obj_delete: "length (obj_delete k ps) \<le> length ps"
  by (simp add: obj_delete_def)

lemma distinct_obj_delete: "distinct (map fst ps) \<Longrightarrow> distinct (map fst (obj_delete k ps))"
  by (simp add: obj_delete_def distinct_map_filter)

lemma register_full:
  "maxTenants (tenantRegistry m) \<le> length (tenants (tenantRegistry m)) \<Longrightarrow>
   register t m = (Inl (MaxTenantsReached (maxTenants (tenantRegistry m))), m)"
  by (simp add: register_def)

lemma register_free:
  assumes "length (tenants (tenantRegistry m)) < maxTenants (tenantRegistry m)"
  shows "fst (register t m) = Inr ()"
    and "tenants (tenantRegistry (snd (register t m))) = obj_set (ctx_id t) t (tenants (tenantRegistry m))"
    and "maxTenants (tenantRegistry (snd (register t m))) = maxTenants (tenantRegistry m)"
    and "pathResolver (snd (register t m)) = pathResolver m"
  using assms by (simp_all add: register_def logger_write_def Let_def)

lemma register_maxTenants: "maxTenants (tenantRegistry (snd (register t m))) = maxTenants (tenantRegistry m)"
  by (simp add: register_def logger_write_def Let_def)

lemma unregister_maxTenants: "maxTenants (tenantRegistry (snd (unregister k m))) = maxTenants (tenantRegistry m)"
  by (simp add: unregister_def logger_write_def Let_def)

lemma unregister_tenants:
  "tenants (tenantRegistry (snd (unregister k m))) = obj_delete k (tenants (tenantRegistry m))"
proof (cases "map_of (tenants (tenantRegistry m)) k")
  case None
  then have "k \<notin> fst ` set (tenants (tenantRegistry m))" by (simp add: map_of_eq_None_iff)
  then have "obj_delete k (tenants (tenantRegistry m)) = tenants (tenantRegistry m)"
    by (auto simp: obj_delete_def filter_id_conv)
  with None show ?thesis by (simp add: unregister_def)
next
  case (Some a)
  then show ?thesis by (simp add: unregister_def logger_write_def Let_def)
qed

lemma register_ok: "registry_ok m \<Longrightarrow> registry_ok (snd (register t m))"
proof (cases "length (tenants (tenantRegistry m)) < maxTenants (tenantRegistry m)")
  case True
  assume "registry_ok m"
  with True show ?thesis
    by (auto simp: registry_ok_def register_free distinct_obj_set length_obj_set)
next
  case False
  assume "registry_ok m"
  with False show ?thesis by (simp add: register_full)
qed

lemma unregister_ok: "registry_ok m \<Longrightarrow> registry_ok (snd (unregister k m))"
  unfolding registry_ok_def unregister_tenants unregister_maxTenants
  using length_obj_delete [of k "tenants (tenantRegistry m)"]
  by (auto simp: distinct_obj_delete)

lemma run_registry_ops_ok: "registry_ok m \<Longrightarrow> registry_ok (run_registry_ops ops m)"
  unfolding run_registry_ops_def
proof (induction ops arbitrary: m)
  case Nil
  then show ?case by simp
next
  case (Cons op ops)
  have "registry_ok (apply_registry_op op m)"
    using Cons.prems by (cases op) (simp_all add: register_ok unregister_ok)
  then show ?case using Cons.IH by simp
qed

lemma run_registry_ops_maxTenants:
  "maxTenants (tenantRegistry (run_registry_ops ops m)) = maxTenants (tenantRegistry m)"
  unfolding run_registry_ops_def
proof (induction ops arbitrary: m)
  case Nil
  then show ?case by simp
next
  case (Cons op ops)
  have "maxTenants (tenantRegistry (apply_registry_op op m)) = maxTenants (tenantRegistry m)"
    by (cases op) (simp_all add: register_maxTenants unregister_maxTenants)
  then show ?case using Cons.IH by simp
qed

text \<open>
  C2. \<open>register\<close> raises the capacity error when the registry already holds
  \<open>maxTenants\<close> entries or more, and then leaves everything as it was; otherwise it
  stores the context under its id, replacing an entry that has this id and leaving the
  other entries alone. Hence, from an empty registry, no sequence of registrations and
  removals leads to more than \<open>maxTenants\<close> entries (the keys stay distinct, so the
  length of the list is the size of the map).
\<close>

theorem register_capacity_bound:
  "(maxTenants (tenantRegistry m) \<le> length (tenants (tenantRegistry m)) \<longrightarrow>
      register t m = (Inl (MaxTenantsReached (maxTenants (tenantRegistry m))), m)) \<and>
   (length (tenants (tenantRegistry m)) < maxTenants (tenantRegistry m) \<longrightarrow>
      fst (register t m) = Inr () \<and>
      getTenant (snd (register t m)) (ctx_id t) = Some t \<and>
      (\<forall>k. k \<noteq> ctx_id t \<longrightarrow> getTenant (snd (register t m)) k = getTenant m k) \<and>
      (getTenant m (ctx_id t) \<noteq> None \<longrightarrow>
         length (tenants (tenantRegistry (snd (register t m)))) = length (tenants (tenantRegistry m)))) \<and>
   (tenants (tenantRegistry m0) = [] \<longrightarrow>
      distinct (map fst (tenants (tenantRegistry (run_registry_ops ops m0)))) \<and>
      length (tenants (tenantRegistry (run_registry_ops ops m0))) \<le> maxTenants (tenantRegistry m0))"
proof (intro conjI impI)
  assume "maxTenants (tenantRegistry m) \<le> length (tenants (tenantRegistry m))"
  then show "register t m = (Inl (MaxTenantsReached (maxTenants (tenantRegistry m))), m)"
    by (rule register_full)
next
  assume free: "length (tenants (tenantRegistry m)) < maxTenants (tenantRegistry m)"
  show "fst (register t m) = Inr ()" using free by (rule register_free)
  show "getTenant (snd (register t m)) (ctx_id t) = Some t"
    by (simp add: getTenant_def register_free(2) [OF free] map_of_obj_set)
  show "\<forall>k. k \<noteq> ctx_id t \<longrightarrow> getTenant (snd (register t m)) k = getTenant m k"
    by (simp add: getTenant_def register_free(2) [OF free] map_of_obj_set)
  assume "getTenant m (ctx_id t) \<noteq> None"
  then show "length (tenants (tenantRegistry (snd (register t m)))) = length (tenants (tenantRegistry m))"
    by (simp add: getTenant_def register_free(2) [OF free] length_obj_set)
next
  assume empty: "tenants (tenantRegistry m0) = []"
  then have "registry_ok m0" by (simp add: registry_ok_def)
  then have ok: "registry_ok (run_registry_ops ops m0)" by (rule run_registry_ops_ok)
  show "distinct (map fst (tenants (tenantRegistry (run_registry_ops ops m0))))"
    using ok by (simp add: registry_ok_def)
  show "length (tenants (tenantRegistry (run_registry_ops ops m0))) \<le> maxTenants (tenantRegistry m0)"
    using ok by (simp add: registry_ok_def run_registry_ops_maxTenants)
qed

theorem register_capacity_bound_witness:
  "length (tenants (tenantRegistry single_slot_manager)) < maxTenants (tenantRegistry single_slot_manager) \<and>
   fst (register (sample_context ''a'') single_slot_manager) = Inr () \<and>
   getTenant (snd (register (sample_context ''a'') single_slot_manager)) ''a'' = Some (sample_context ''a'') \<and>
   register (sample_context ''b'') (snd (register (sample_context ''a'') single_slot_manager))
     = (Inl (MaxTenantsReached 1), snd (register (sample_context ''a'') single_slot_manager)) \<and>
   tenants (tenantRegistry single_slot_manager) = [] \<and>
   length (tenants (tenantRegistry (run_registry_ops
      [Register (sample_context ''a''), Register (sample_context ''b''), Unregister ''a'',
       Register (sample_context ''b''), Register (sample_context ''b'')] single_slot_manager))) \<le> 1 \<and>
   getTenant (snd (register (sample_context ''a'') sample_manager)) ''a'' \<noteq> None \<and>
   length (tenants (tenantRegistry
      (snd (register (sample_context ''a'') (snd (register (sample_context ''a'') sample_manager))))))
     = length (tenants (tenantRegistry (snd (register (sample_context ''a'') sample_manager)))) \<and>
   getTenant (snd (register (sample_context ''b'') (snd (register (sample_context ''a'') sample_manager)))) ''a''
     = getTenant (snd (register (sample_context ''a'') sample_manager)) ''a''"
proof -
  let ?m1 = "snd (register (sample_context ''a'') single_slot_manager)"
  let ?ops = "[Register (sample_context ''a''), Register (sample_context ''b''), Unregister ''a'',
       Register (sample_context ''b''), Register (sample_context ''b'')]"
  have free: "length (tenants (tenantRegistry single_slot_manager)) < maxTenants (tenantRegistry single_slot_manager)"
    by code_simp
  have full: "maxTenants (tenantRegistry ?m1) \<le> length (tenants (tenantRegistry ?m1))"
    by code_simp
  have mx: "maxTenants (tenantRegistry ?m1) = 1" by code_simp
  have mx0: "maxTenants (tenantRegistry single_slot_manager) = 1" by code_simp
  have e: "tenants (tenantRegistry single_slot_manager) = []" by code_simp
  have i: "ctx_id (sample_context ''a'') = ''a''" by (simp add: sample_context_def)
  note r1 = register_capacity_bound [of single_slot_manager "sample_context ''a''" single_slot_manager ?ops]
  note r2 = register_capacity_bound [of ?m1 "sample_context ''b''"]
  from r1 free have a: "fst (register (sample_context ''a'') single_slot_manager) = Inr ()" by blast
  from r1 free have b: "getTenant ?m1 (ctx_id (sample_context ''a'')) = Some (sample_context ''a'')"
    by blast
  from r2 full have c: "register (sample_context ''b'') ?m1
      = (Inl (MaxTenantsReached (maxTenants (tenantRegistry ?m1))), ?m1)" by blast
  from r1 e have d: "length (tenants (tenantRegistry (run_registry_ops ?ops single_slot_manager)))
      \<le> maxTenants (tenantRegistry single_slot_manager)" by blast
  let ?n1 = "snd (register (sample_context ''a'') sample_manager)"
  have free2: "length (tenants (tenantRegistry ?n1)) < maxTenants (tenantRegistry ?n1)"
    by code_simp
  have there: "getTenant ?n1 (ctx_id (sample_context ''a'')) \<noteq> None" by code_simp
  have ne: "''a'' \<noteq> ctx_id (sample_context ''b'')" by (simp add: sample_context_def)
  note r3 = register_capacity_bound [of ?n1 "sample_context ''a''"]
  note r4 = register_capacity_bound [of ?n1 "sample_context ''b''"]
  from r3 free2 there have ow: "length (tenants (tenantRegistry (snd (register (sample_context ''a'') ?n1))))
      = length (tenants (tenantRegistry ?n1))" by blast
  from r4 free2 ne have oth: "getTenant (snd (register (sample_context ''b'') ?n1)) ''a'' = getTenant ?n1 ''a''"
    by blast
  from free a b [unfolded i] c [unfolded mx] e d [unfolded mx0] there [unfolded i] ow oth
  show ?thesis by (intro conjI)
qed

section \<open>Configuration loading\<close>

lemma mergeConfigFiles_fst:
  "fst (mergeConfigFiles e files config m) = fold (mergeOrSkip e) files config"
  by (induction files arbitrary: config m) (auto simp: mergeOrSkip_def split: sum.splits)

lemma mergeConfigFiles_logger:
  "\<exists>extra. logger (snd (mergeConfigFiles e files config m)) = logger m @ extra"
proof (induction files arbitrary: config m)
  case Nil
  then show ?case by simp
next
  case (Cons f fs)
  show ?case
  proof (cases "loadConfigFile e f config")
    case (Inl err)
    from Cons [of config "logger_write LogError ''Failed to load config from'' [JStr f] m"]
    show ?thesis using Inl by (auto simp: logger_write_def)
  next
    case (Inr c)
    from Cons [of c "logger_write LogDebug ''Loaded configuration from'' [JStr f] m"]
    show ?thesis using Inr by (auto simp: logger_write_def)
  qed
qed

lemma mergeConfigFiles_failure_logged:
  assumes "loadConfigFile e file config = Inl err"
  shows "(LogError, ''Failed to load config from'', [JStr file])
           \<in> set (logger (snd (mergeConfigFiles e (file # files) config m)))"
proof -
  let ?m = "logger_write LogError ''Failed to load config from'' [JStr file] m"
  from mergeConfigFiles_logger [of e files config ?m] obtain extra where
    "logger (snd (mergeConfigFiles e files config ?m)) = logger ?m @ extra" by blast
  with assms show ?thesis by (simp add: logger_write_def)
qed

lemma loadConfig_fst:
  "fst (loadConfig e configPath defaults isTrusted m) =
     (case (if isTrusted then Inr configPath
            else resolvePath (process_cwd e) (pathResolver m) configPath no_options) of
        Inl err \<Rightarrow> JObj defaults
      | Inr absolutePath \<Rightarrow>
          (case fastGlob_config e absolutePath of
             Inl err \<Rightarrow> JObj defaults
           | Inr configFiles \<Rightarrow> fold (mergeOrSkip e) configFiles (JObj defaults)))"
  by (auto simp: loadConfig_def mergeConfigFiles_fst split: sum.splits)

lemma loadConfig_path_sorted_eq:
  assumes "\<forall>d files. fastGlob_config e d = Inr files \<longrightarrow> sorted files"
  shows "loadConfig_path_sorted e configPath defaults isTrusted m
           = loadConfig e configPath defaults isTrusted m"
proof -
  have "(\<lambda>d. map_sum id sort (fastGlob_config e d)) = fastGlob_config e"
  proof
    fix d
    show "map_sum id sort (fastGlob_config e d) = fastGlob_config e d"
    proof (cases "fastGlob_config e d")
      case (Inl err)
      then show ?thesis by simp
    next
      case (Inr files)
      with assms have "sorted files" by blast
      then have "sort files = files" by (rule sort_key_id_if_sorted [where f = "\<lambda>x. x", simplified])
      with Inr show ?thesis by simp
    qed
  qed
  then show ?thesis by (simp add: loadConfig_path_sorted_def)
qed

text \<open>
  C7, as first stated, has the files merged in path-sorted order. \<open>loadConfig\<close> does not
  sort: it merges the files as the glob lists them, \<open>config.js\<close>, \<open>config.mjs\<close>,
  \<open>config.json\<close>. In a directory with all three the value of \<open>config.json\<close> wins,
  where the path-sorted order \<open>config.js\<close>, \<open>config.json\<close>, \<open>config.mjs\<close> would let
  \<open>config.mjs\<close> win.
\<close>

theorem loadConfig_order_is_not_path_sorted:
  "fastGlob_config three_file_env acme_dir
     = Inr [''/srv/app/tenants/acme/config.js'', ''/srv/app/tenants/acme/config.mjs'',
            ''/srv/app/tenants/acme/config.json''] \<and>
   sort [''/srv/app/tenants/acme/config.js'', ''/srv/app/tenants/acme/config.mjs'',
         ''/srv/app/tenants/acme/config.json'']
     = [''/srv/app/tenants/acme/config.js'', ''/srv/app/tenants/acme/config.json'',
        ''/srv/app/tenants/acme/config.mjs''] \<and>
   fst (loadConfig three_file_env acme_dir [] False sample_manager)
     = JObj [(''name'', JStr ''from-json'')] \<and>
   fst (loadConfig_path_sorted three_file_env acme_dir [] False sample_manager)
     = JObj [(''name'', JStr ''from-mjs'')]"
  by code_simp

text \<open>
  C7. \<open>loadConfig\<close> takes the configuration files in the order in which the glob lists
  them and merges each into the defaults in that order; it applies no sort of its own, so
  the order is path-sorted only when the glob's list is. When the path is refused, the glob
  fails or lists no file, the defaults are returned unchanged. A file that fails to
  parse, load or merge is logged as an error and skipped, and the merge goes on with the
  remaining files.
\<close>

theorem loadConfig_merges_in_listed_order:
  "fst (loadConfig e configPath defaults isTrusted m) =
     (case (if isTrusted then Inr configPath
            else resolvePath (process_cwd e) (pathResolver m) configPath no_options) of
        Inl err \<Rightarrow> JObj defaults
      | Inr absolutePath \<Rightarrow>
          (case fastGlob_config e absolutePath of
             Inl err \<Rightarrow> JObj defaults
           | Inr configFiles \<Rightarrow> fold (mergeOrSkip e) configFiles (JObj defaults))) \<and>
   (loadConfigFile e file config = Inl err \<longrightarrow>
      mergeOrSkip e file config = config \<and>
      mergeConfigFiles e (file # files) config m =
        mergeConfigFiles e files config
          (logger_write LogError ''Failed to load config from'' [JStr file] m) \<and>
      (LogError, ''Failed to load config from'', [JStr file])
         \<in> set (logger (snd (mergeConfigFiles e (file # files) config m)))) \<and>
   (loadConfigFile e file config = Inr config' \<longrightarrow> mergeOrSkip e file config = config') \<and>
   ((\<forall>d fs. fastGlob_config e d = Inr fs \<longrightarrow> sorted fs) \<longrightarrow>
      loadConfig_path_sorted e configPath defaults isTrusted m
        = loadConfig e configPath defaults isTrusted m)"
proof (intro conjI impI)
  show "fst (loadConfig e configPath defaults isTrusted m) =
     (case (if isTrusted then Inr configPath
            else resolvePath (process_cwd e) (pathResolver m) configPath no_options) of
        Inl err \<Rightarrow> JObj defaults
      | Inr absolutePath \<Rightarrow>
          (case fastGlob_config e absolutePath of
             Inl err \<Rightarrow> JObj defaults
           | Inr configFiles \<Rightarrow> fold (mergeOrSkip e) configFiles (JObj defaults)))"
    by (rule loadConfig_fst)
next
  assume f: "loadConfigFile e file config = Inl err"
  then show "mergeOrSkip e file config = config" by (simp add: mergeOrSkip_def)
  from f show "mergeConfigFiles e (file # files) config m =
        mergeConfigFiles e files config
          (logger_write LogError ''Failed to load config from'' [JStr file] m)"
    by simp
  from f show "(LogError, ''Failed to load config from'', [JStr file])
         \<in> set (logger (snd (mergeConfigFiles e (file # files) config m)))"
    by (rule mergeConfigFiles_failure_logged)
next
  assume "loadConfigFile e file config = Inr config'"
  then show "mergeOrSkip e file config = config'" by (simp add: mergeOrSkip_def)
next
  assume "\<forall>d fs. fastGlob_config e d = Inr fs \<longrightarrow> sorted fs"
  then show "loadConfig_path_sorted e configPath defaults isTrusted m
        = loadConfig e configPath defaults isTrusted m"
    by (rule loadConfig_path_sorted_eq)
qed

theorem loadConfig_merges_in_listed_order_witness:
  "loadConfigFile broken_file_env ''/srv/app/tenants/acme/config.js'' (JObj [(''id'', JStr ''acme'')])
     = Inl (ExternalFailure ''SyntaxError'') \<and>
   fst (loadConfig broken_file_env acme_dir [(''id'', JStr ''acme'')] False sample_manager)
     = JObj [(''id'', JStr ''acme''), (''region'', JStr ''eu''), (''name'', JStr ''from-json'')] \<and>
   (LogError, ''Failed to load config from'', [JStr ''/srv/app/tenants/acme/config.js''])
      \<in> set (logger (snd (mergeConfigFiles broken_file_env
            [''/srv/app/tenants/acme/config.js'', ''/srv/app/tenants/acme/config.mjs'',
             ''/srv/app/tenants/acme/config.json''] (JObj [(''id'', JStr ''acme'')]) sample_manager))) \<and>
   fst (loadConfig plain_env ''/srv/app/tenants/none'' [(''id'', JStr ''acme'')] False sample_manager)
     = JObj [(''id'', JStr ''acme'')] \<and>
   mergeOrSkip broken_file_env ''/srv/app/tenants/acme/config.mjs'' (JObj [(''id'', JStr ''acme'')])
     = JObj [(''id'', JStr ''acme''), (''region'', JStr ''eu'')] \<and>
   loadConfig_path_sorted plain_env acme_dir [] False sample_manager
     = loadConfig plain_env acme_dir [] False sample_manager"
proof -
  let ?j = "''/srv/app/tenants/acme/config.js''"
  let ?d = "JObj [(''id'', JStr ''acme'')]"
  have f: "loadConfigFile broken_file_env ?j ?d = Inl (ExternalFailure ''SyntaxError'')"
    by code_simp
  have rhs: "(case (if False then Inr acme_dir
            else resolvePath (process_cwd broken_file_env) (pathResolver sample_manager) acme_dir no_options) of
        Inl err \<Rightarrow> JObj [(''id'', JStr ''acme'')]
      | Inr absolutePath \<Rightarrow>
          (case fastGlob_config broken_file_env absolutePath of
             Inl err \<Rightarrow> JObj [(''id'', JStr ''acme'')]
           | Inr configFiles \<Rightarrow> fold (mergeOrSkip broken_file_env) configFiles (JObj [(''id'', JStr ''acme'')])))
     = JObj [(''id'', JStr ''acme''), (''region'', JStr ''eu''), (''name'', JStr ''from-json'')]"
    by code_simp
  have a: "fst (loadConfig broken_file_env acme_dir [(''id'', JStr ''acme'')] False sample_manager)
     = JObj [(''id'', JStr ''acme''), (''region'', JStr ''eu''), (''name'', JStr ''from-json'')]"
    using loadConfig_merges_in_listed_order
      [of broken_file_env acme_dir "[(''id'', JStr ''acme'')]" False sample_manager, THEN conjunct1] rhs
    by (rule trans)
  have b: "(LogError, ''Failed to load config from'', [JStr ?j])
      \<in> set (logger (snd (mergeConfigFiles broken_file_env
            [?j, ''/srv/app/tenants/acme/config.mjs'', ''/srv/app/tenants/acme/config.json''] ?d sample_manager)))"
    using loadConfig_merges_in_listed_order
      [of broken_file_env _ _ _ sample_manager ?j ?d "ExternalFailure ''SyntaxError''"
          "[''/srv/app/tenants/acme/config.mjs'', ''/srv/app/tenants/acme/config.json'']",
       THEN conjunct2, THEN conjunct1] f
    by blast
  have rhs2: "(case (if False then Inr ''/srv/app/tenants/none''
            else resolvePath (process_cwd plain_env) (pathResolver sample_manager) ''/srv/app/tenants/none'' no_options) of
        Inl err \<Rightarrow> JObj [(''id'', JStr ''acme'')]
      | Inr absolutePath \<Rightarrow>
          (case fastGlob_config plain_env absolutePath of
             Inl err \<Rightarrow> JObj [(''id'', JStr ''acme'')]
           | Inr configFiles \<Rightarrow> fold (mergeOrSkip plain_env) configFiles (JObj [(''id'', JStr ''acme'')])))
     = JObj [(''id'', JStr ''acme'')]"
    by code_simp
  have c: "fst (loadConfig plain_env ''/srv/app/tenants/none'' [(''id'', JStr ''acme'')] False sample_manager)
     = JObj [(''id'', JStr ''acme'')]"
    using loadConfig_merges_in_listed_order
      [of plain_env "''/srv/app/tenants/none''" "[(''id'', JStr ''acme'')]" False sample_manager, THEN conjunct1] rhs2
    by (rule trans)
  have g: "loadConfigFile broken_file_env ''/srv/app/tenants/acme/config.mjs'' ?d
      = Inr (JObj [(''id'', JStr ''acme''), (''region'', JStr ''eu'')])"
    by code_simp
  have h: "mergeOrSkip broken_file_env ''/srv/app/tenants/acme/config.mjs'' ?d
      = JObj [(''id'', JStr ''acme''), (''region'', JStr ''eu'')]"
    using loadConfig_merges_in_listed_order
      [of broken_file_env _ _ _ _ "''/srv/app/tenants/acme/config.mjs''" ?d _ _
          "JObj [(''id'', JStr ''acme''), (''region'', JStr ''eu'')]",
       THEN conjunct2, THEN conjunct2, THEN conjunct1] g
    by blast
  have srt: "\<forall>d fs. fastGlob_config plain_env d = Inr fs \<longrightarrow> sorted fs"
    by (auto simp: plain_env_def acme_json_def sample_env_def split: if_splits)
  have k: "loadConfig_path_sorted plain_env acme_dir [] False sample_manager
      = loadConfig plain_env acme_dir [] False sample_manager"
    using loadConfig_merges_in_listed_order
      [of plain_env acme_dir "[]" False sample_manager,
       THEN conjunct2, THEN conjunct2, THEN conjunct2] srt
    by blast
  from f a b c h k show ?thesis by (intro conjI)
qed

section \<open>What the adapters leave untouched\<close>

text \<open>Loading a configuration and loading resources write to the logger and to the
  trusted paths only; the registry is not reached, and resource loading keeps the id and
  the configuration of the context.\<close>

lemma logger_write_registry [simp]: "tenantRegistry (logger_write l s a m) = tenantRegistry m"
  by (simp add: logger_write_def)

lemma mergeConfigFiles_registry:
  "mergeConfigFiles e files config m = (c, m') \<Longrightarrow> tenantRegistry m' = tenantRegistry m"
  by (induction files arbitrary: config m) (auto split: sum.splits)

lemma loadConfig_registry:
  "loadConfig e p d t m = (c, m') \<Longrightarrow> tenantRegistry m' = tenantRegistry m"
  by (auto simp: loadConfig_def split: sum.splits if_splits dest: mergeConfigFiles_registry)

lemma getModuleInfo_registry:
  "getModuleInfo e spec m = (r, m') \<Longrightarrow> tenantRegistry m' = tenantRegistry m"
  by (auto simp: getModuleInfo_def split: sum.splits prod.splits)

lemma canHandle_registry:
  "canHandle e a source m = (b, m') \<Longrightarrow> tenantRegistry m' = tenantRegistry m"
  by (cases a) (auto split: sum.splits prod.splits dest: getModuleInfo_registry)

lemma npm_loadConfig_try_registry:
  "npm_loadConfig_try e pn d m = (r, m') \<Longrightarrow> tenantRegistry m' = tenantRegistry m"
  unfolding npm_loadConfig_try_def
  by (auto split: sum.splits prod.splits dest!: getModuleInfo_registry loadConfig_registry)

lemma adapter_loadConfig_registry:
  "adapter_loadConfig e a source d m = (r, m') \<Longrightarrow> tenantRegistry m' = tenantRegistry m"
  by (cases a)
     (auto split: sum.splits prod.splits dest!: npm_loadConfig_try_registry loadConfig_registry)

lemma addServices_fields [simp]:
  "ctx_id (addServices svcs ctx) = ctx_id ctx"
  "ctx_config (addServices svcs ctx) = ctx_config ctx"
  unfolding addServices_def
  by (induction svcs arbitrary: ctx) (auto simp: addService_def)

lemma loadPluginDirs_fields [simp]:
  "ctx_id (loadPluginDirs e pp t dirs ctx) = ctx_id ctx"
  "ctx_config (loadPluginDirs e pp t dirs ctx) = ctx_config ctx"
  by (induction dirs arbitrary: ctx) (auto simp: addPlugin_def Let_def)

lemma load_schemas_step_inv:
  "load_schemas_step e t tp ctx m = (ctx', m') \<Longrightarrow>
   tenantRegistry m' = tenantRegistry m \<and> ctx_id ctx' = ctx_id ctx \<and> ctx_config ctx' = ctx_config ctx"
  by (auto simp: load_schemas_step_def Let_def split: if_splits)

lemma load_services_step_inv:
  "load_services_step e t tp ctx m = (ctx', m') \<Longrightarrow>
   tenantRegistry m' = tenantRegistry m \<and> ctx_id ctx' = ctx_id ctx \<and> ctx_config ctx' = ctx_config ctx"
  by (auto simp: load_services_step_def Let_def split: if_splits)

lemma load_routes_step_inv:
  "load_routes_step e t tp ctx m = (ctx', m') \<Longrightarrow>
   tenantRegistry m' = tenantRegistry m \<and> ctx_id ctx' = ctx_id ctx \<and> ctx_config ctx' = ctx_config ctx"
  by (auto simp: load_routes_step_def Let_def split: if_splits)

lemma load_plugins_step_registry:
  "load_plugins_step e t tp ctx m = (r, m') \<Longrightarrow> tenantRegistry m' = tenantRegistry m"
  by (auto simp: load_plugins_step_def Let_def split: if_splits sum.splits)

lemma load_plugins_step_fields:
  "load_plugins_step e t tp ctx m = (Inr ctx', m') \<Longrightarrow>
   ctx_id ctx' = ctx_id ctx \<and> ctx_config ctx' = ctx_config ctx"
  by (auto simp: load_plugins_step_def Let_def split: if_splits sum.splits)

lemma load_directory_resources_registry:
  "load_directory_resources e t tp ctx m = (r, m') \<Longrightarrow> tenantRegistry m' = tenantRegistry m"
  unfolding load_directory_resources_def
  by (auto split: prod.splits sum.splits
      dest!: load_schemas_step_inv load_services_step_inv load_routes_step_inv
             load_plugins_step_registry)

lemma load_directory_resources_fields:
  "load_directory_resources e t tp ctx m = (Inr ctx', m') \<Longrightarrow>
   ctx_id ctx' = ctx_id ctx \<and> ctx_config ctx' = ctx_config ctx"
  unfolding load_directory_resources_def
  by (auto split: prod.splits sum.splits
      dest!: load_schemas_step_inv load_services_step_inv load_routes_step_inv
             load_plugins_step_fields)

lemma local_loadResources_registry:
  "local_loadResources e ctx m = (r, m') \<Longrightarrow> tenantRegistry m' = tenantRegistry m"
  unfolding local_loadResources_def
  by (auto split: prod.splits sum.splits jsval.splits dest!: load_directory_resources_registry)

lemma local_loadResources_fields:
  "local_loadResources e ctx m = (Inr ctx', m') \<Longrightarrow>
   ctx_id ctx' = ctx_id ctx \<and> ctx_config ctx' = ctx_config ctx"
  unfolding local_loadResources_def
  by (auto split: prod.splits sum.splits jsval.splits dest!: load_directory_resources_fields)

lemma loadPackageResources_registry:
  "loadPackageResources e ctx m = (r, m') \<Longrightarrow> tenantRegistry m' = tenantRegistry m"
  unfolding loadPackageResources_def
  by (auto simp: Let_def split: prod.splits sum.splits jsval.splits
      dest!: load_directory_resources_registry)

lemma loadPackageResources_fields:
  "loadPackageResources e ctx m = (Inr ctx', m') \<Longrightarrow>
   ctx_id ctx' = ctx_id ctx \<and> ctx_config ctx' = ctx_config ctx"
  unfolding loadPackageResources_def
  by (auto simp: Let_def split: prod.splits sum.splits jsval.splits
      dest!: load_directory_resources_fields)

lemma npm_loadResources_try_registry:
  "npm_loadResources_try e pn ctx m = (r, m') \<Longrightarrow> tenantRegistry m' = tenantRegistry m"
  unfolding npm_loadResources_try_def
  by (auto split: prod.splits sum.splits jsval.splits if_splits
      dest!: loadPackageResources_registry)

lemma npm_loadResources_try_fields:
  "npm_loadResources_try e pn ctx m = (Inr ctx', m') \<Longrightarrow>
   ctx_id ctx' = ctx_id ctx \<and> ctx_config ctx' = ctx_config ctx"
  unfolding npm_loadResources_try_def
  by (auto simp: addPlugin_def split: prod.splits sum.splits jsval.splits if_splits
      dest!: loadPackageResources_fields)

lemma adapter_loadResources_registry:
  "adapter_loadResources e a ctx m = (r, m') \<Longrightarrow> tenantRegistry m' = tenantRegistry m"
  by (cases a)
     (auto simp: npm_loadResources_def split: prod.splits sum.splits
       dest!: local_loadResources_registry npm_loadResources_try_registry)

lemma adapter_loadResources_fields:
  "adapter_loadResources e a ctx m = (Inr ctx', m') \<Longrightarrow>
   ctx_id ctx' = ctx_id ctx \<and> ctx_config ctx' = ctx_config ctx"
  by (cases a)
     (auto simp: npm_loadResources_def split: prod.splits sum.splits
       dest!: local_loadResources_fields npm_loadResources_try_fields)

section \<open>Building and loading a tenant\<close>

lemma new_TenantContext_fields:
  "new_TenantContext tid config a = Inr ctx \<Longrightarrow>
   validateTenantId tid = Inr (ctx_id ctx) \<and> ctx_config ctx = config"
  by (auto simp: new_TenantContext_def split: sum.splits)

lemma new_TenantContext_invalid:
  "validateTenantId tid = Inl err \<Longrightarrow> new_TenantContext tid config a = Inl err"
  by (simp add: new_TenantContext_def)

lemma buildFromConfig_registry:
  "buildFromConfig e a tid config m = (r, m') \<Longrightarrow> tenantRegistry m' = tenantRegistry m"
  unfolding buildFromConfig_def
  by (auto split: prod.splits sum.splits if_splits dest!: adapter_loadResources_registry)

lemma buildFromConfig_inactive:
  "get_prop config ''active'' = Inr act \<Longrightarrow> \<not> truthy act \<Longrightarrow>
   buildFromConfig e a tid config m =
     (Inr None, logger_write LogInfo ''Tenant is inactive, skipping'' [tid] m)"
  by (simp add: buildFromConfig_def)

lemma buildFromConfig_invalid_id:
  "get_prop config ''active'' = Inr act \<Longrightarrow> truthy act \<Longrightarrow>
   get_prop config ''name'' = Inr nm \<Longrightarrow> validateTenantId (js_or nm tid) = Inl err \<Longrightarrow>
   buildFromConfig e a tid config m = (Inl err, m)"
  by (simp add: buildFromConfig_def new_TenantContext_invalid)

lemma buildFromConfig_Some:
  "buildFromConfig e a tid config m = (Inr (Some ctx), m') \<Longrightarrow>
   \<exists>nm. get_prop config ''name'' = Inr nm \<and> validateTenantId (js_or nm tid) = Inr (ctx_id ctx) \<and>
        ctx_config ctx = config"
  unfolding buildFromConfig_def
  by (auto split: prod.splits sum.splits if_splits
      dest!: adapter_loadResources_fields new_TenantContext_fields)

lemma buildTenant_registry:
  "buildTenant e src a cid m = (r, m') \<Longrightarrow> tenantRegistry m' = tenantRegistry m"
  unfolding buildTenant_def
  by (auto simp: Let_def split: prod.splits sum.splits
      dest!: adapter_loadConfig_registry buildFromConfig_registry)

lemma buildTenant_with_config:
  "adapter_loadConfig e a src (tenantDefaults (determineTenantId cid a src) src) m = (Inr config, m1) \<Longrightarrow>
   buildTenant e src a cid m =
     (case buildFromConfig e a (determineTenantId cid a src) config m1 of
        (Inl err, m2) \<Rightarrow>
          (None, logger_write LogError ''Failed to build tenant from'' [JStr src] m2)
      | (Inr built, m2) \<Rightarrow> (built, m2))"
  by (simp add: buildTenant_def)

lemma buildTenant_Some:
  "buildTenant e src a cid m = (Some ctx, m') \<Longrightarrow>
   \<exists>config m1 nm.
     adapter_loadConfig e a src (tenantDefaults (determineTenantId cid a src) src) m = (Inr config, m1) \<and>
     get_prop config ''name'' = Inr nm \<and>
     validateTenantId (js_or nm (determineTenantId cid a src)) = Inr (ctx_id ctx) \<and>
     ctx_config ctx = config"
  unfolding buildTenant_def
  by (auto simp: Let_def split: prod.splits sum.splits dest!: buildFromConfig_Some)

lemma selectAdapter_registry:
  "selectAdapter e as src m = (r, m') \<Longrightarrow> tenantRegistry m' = tenantRegistry m"
  by (induction as arbitrary: m)
     (auto split: prod.splits bool.splits dest!: canHandle_registry)

lemma createTenant_from_select:
  "createTenant_from e as src cid m =
     (case selectAdapter e as src m of
        (None, m0) \<Rightarrow> (Inl (NoAdapterFound (JStr src)), m0)
      | (Some a, m0) \<Rightarrow> (case buildTenant e src a cid m0 of (built, m2) \<Rightarrow> (Inr built, m2)))"
  by (induction as arbitrary: m) (auto split: prod.splits bool.splits)

lemma createTenant_registry:
  "createTenant e source cid m = (r, m') \<Longrightarrow> tenantRegistry m' = tenantRegistry m"
  unfolding createTenant_def createTenant_from_select
  by (auto split: jsval.splits prod.splits option.splits
      dest!: selectAdapter_registry buildTenant_registry)

lemma loadTenant_None_registry:
  "loadTenant e source cid m = (None, m') \<Longrightarrow> tenantRegistry m' = tenantRegistry m"
  unfolding loadTenant_def
  by (auto simp: register_def Let_def split: prod.splits sum.splits option.splits if_splits
      dest!: createTenant_registry)

lemma loadTenant_Some:
  "loadTenant e source cid m = (Some ctx, m') \<Longrightarrow>
   (\<exists>m1. createTenant e source cid m = (Inr (Some ctx), m1)) \<and>
   length (tenants (tenantRegistry m)) < maxTenants (tenantRegistry m) \<and>
   tenants (tenantRegistry m') = obj_set (ctx_id ctx) ctx (tenants (tenantRegistry m)) \<and>
   maxTenants (tenantRegistry m') = maxTenants (tenantRegistry m)"
  unfolding loadTenant_def
  by (auto simp: register_def Let_def split: prod.splits sum.splits option.splits if_splits
      dest!: createTenant_registry)

lemma mergedTenantConfig_createTenant:
  "mergedTenantConfig e src cid m = Some (a, tid, config, m1) \<Longrightarrow>
   tid = determineTenantId cid a src \<and>
   createTenant e (JStr src) cid m =
     (case buildFromConfig e a tid config m1 of
        (Inl err, m2) \<Rightarrow>
          (Inr None, logger_write LogError ''Failed to build tenant from'' [JStr src] m2)
      | (Inr built, m2) \<Rightarrow> (Inr built, m2))"
  unfolding mergedTenantConfig_def createTenant_def createTenant_from_select
  by (auto simp: Let_def buildTenant_def split: prod.splits sum.splits option.splits)

lemma mergedTenantConfig_registry:
  "mergedTenantConfig e src cid m = Some (a, tid, config, m1) \<Longrightarrow>
   tenantRegistry m1 = tenantRegistry m"
  unfolding mergedTenantConfig_def
  by (auto simp: Let_def split: prod.splits sum.splits option.splits
      dest!: selectAdapter_registry adapter_loadConfig_registry)

lemma createTenant_Some:
  "createTenant e source cid m = (Inr (Some ctx), m') \<Longrightarrow>
   \<exists>src a config m1 nm.
     source = JStr src \<and>
     mergedTenantConfig e src cid m = Some (a, determineTenantId cid a src, config, m1) \<and>
     get_prop config ''name'' = Inr nm \<and>
     validateTenantId (js_or nm (determineTenantId cid a src)) = Inr (ctx_id ctx) \<and>
     ctx_config ctx = config"
  unfolding createTenant_def createTenant_from_select mergedTenantConfig_def
  by (auto simp: Let_def split: jsval.splits prod.splits option.splits dest!: buildTenant_Some)

lemma stripPackagePrefix_prefixed:
  "stripPackagePrefix (''fastify-multitenant-'' @ s) = s"
  by (simp add: stripPackagePrefix_def)

lemma stripPackagePrefix_other:
  "\<not> prefix ''fastify-multitenant-'' s \<Longrightarrow> stripPackagePrefix s = s"
  by (simp add: stripPackagePrefix_def)

lemma determineTenantId_precedence:
  "determineTenantId cid a src =
     (if truthy cid then cid
      else if a = NPMTenantAdapter then JStr (stripPackagePrefix src)
      else JStr (path_basename src))"
  by (cases a) (simp_all add: determineTenantId_def)

lemma loadTenant_invalid_id_no_mutation:
  assumes mc: "mergedTenantConfig e src cid m = Some (a, tid, config, m1)"
    and act: "get_prop config ''active'' = Inr act" "truthy act"
    and nm: "get_prop config ''name'' = Inr nm"
    and bad: "validateTenantId (js_or nm tid) = Inl err"
  shows "fst (loadTenant e (JStr src) cid m) = None"
    and "tenantRegistry (snd (loadTenant e (JStr src) cid m)) = tenantRegistry m"
proof -
  have "buildFromConfig e a tid config m1 = (Inl err, m1)"
    using act nm bad by (rule buildFromConfig_invalid_id)
  with mergedTenantConfig_createTenant [OF mc]
  have "createTenant e (JStr src) cid m =
      (Inr None, logger_write LogError ''Failed to build tenant from'' [JStr src] m1)"
    by simp
  then have lt: "loadTenant e (JStr src) cid m =
      (None, logger_write LogError ''Failed to build tenant from'' [JStr src] m1)"
    by (simp add: loadTenant_def)
  then show "fst (loadTenant e (JStr src) cid m) = None" by simp
  have "tenantRegistry m1 = tenantRegistry m"
    using mc by (rule mergedTenantConfig_registry)
  with lt show "tenantRegistry (snd (loadTenant e (JStr src) cid m)) = tenantRegistry m" by simp
qed

lemma loadTenant_Some_lookup:
  assumes "loadTenant e source cid m = (Some ctx, m')"
  shows "getTenant m' (ctx_id ctx) = Some ctx"
    and "k \<noteq> ctx_id ctx \<Longrightarrow> getTenant m' k = getTenant m k"
  using loadTenant_Some [OF assms] by (simp_all add: getTenant_def map_of_obj_set)

lemma loadTenant_Some_id:
  assumes "loadTenant e source cid m = (Some ctx, m')"
  shows "\<exists>src a config m1 nm.
     source = JStr src \<and>
     mergedTenantConfig e src cid m = Some (a, determineTenantId cid a src, config, m1) \<and>
     get_prop config ''name'' = Inr nm \<and>
     JStr (ctx_id ctx) = js_or nm (determineTenantId cid a src)"
proof -
  from loadTenant_Some [OF assms] obtain m1 where
    "createTenant e source cid m = (Inr (Some ctx), m1)" by blast
  from createTenant_Some [OF this] obtain src a config m2 nm where
    "source = JStr src"
    "mergedTenantConfig e src cid m = Some (a, determineTenantId cid a src, config, m2)"
    "get_prop config ''name'' = Inr nm"
    "validateTenantId (js_or nm (determineTenantId cid a src)) = Inr (ctx_id ctx)"
    by blast
  moreover from this(4) have "JStr (ctx_id ctx) = js_or nm (determineTenantId cid a src)"
    by (simp add: validateTenantId_Inr_iff)
  ultimately show ?thesis by blast
qed

text \<open>
  C3. \<open>validateTenantId\<close> returns its input when that is a non-empty string of
  characters from \<open>[A-Za-z0-9_-]\<close>, and raises an invalid-identifier error for every
  other input. When the id a tenant is to be built with fails the validation, the load
  returns nothing and the registry stays as it was.
\<close>

theorem validateTenantId_accepts_exactly_clean_ids:
  "(validateTenantId v = Inr s \<longleftrightarrow> v = JStr s \<and> s \<noteq> [] \<and> list_all allowed_char s) \<and>
   (validateTenantId v = Inl err \<longrightarrow> invalid_identifier err) \<and>
   ((\<forall>t. v = JStr t \<longrightarrow> t = [] \<or> \<not> list_all allowed_char t) \<longrightarrow>
      (\<exists>err'. validateTenantId v = Inl err' \<and> invalid_identifier err')) \<and>
   (mergedTenantConfig e src cid m = Some (a, tid, config, m1) \<and>
    get_prop config ''active'' = Inr act \<and> truthy act \<and>
    get_prop config ''name'' = Inr nm \<and>
    validateTenantId (js_or nm tid) = Inl err \<longrightarrow>
      fst (loadTenant e (JStr src) cid m) = None \<and>
      tenantRegistry (snd (loadTenant e (JStr src) cid m)) = tenantRegistry m)"
proof (intro conjI impI)
  show "validateTenantId v = Inr s \<longleftrightarrow> v = JStr s \<and> s \<noteq> [] \<and> list_all allowed_char s"
    by (rule validateTenantId_Inr_iff)
next
  assume "validateTenantId v = Inl err"
  then show "invalid_identifier err" by (rule validateTenantId_Inl_invalid)
next
  assume none: "\<forall>t. v = JStr t \<longrightarrow> t = [] \<or> \<not> list_all allowed_char t"
  show "\<exists>err'. validateTenantId v = Inl err' \<and> invalid_identifier err'"
  proof (cases "validateTenantId v")
    case (Inl err')
    then show ?thesis using validateTenantId_Inl_invalid by blast
  next
    case (Inr t)
    then have "v = JStr t \<and> t \<noteq> [] \<and> list_all allowed_char t"
      by (simp add: validateTenantId_Inr_iff)
    with none show ?thesis by blast
  qed
next
  assume h: "mergedTenantConfig e src cid m = Some (a, tid, config, m1) \<and>
    get_prop config ''active'' = Inr act \<and> truthy act \<and>
    get_prop config ''name'' = Inr nm \<and>
    validateTenantId (js_or nm tid) = Inl err"
  then show "fst (loadTenant e (JStr src) cid m) = None"
    using loadTenant_invalid_id_no_mutation(1) by blast
next
  assume h: "mergedTenantConfig e src cid m = Some (a, tid, config, m1) \<and>
    get_prop config ''active'' = Inr act \<and> truthy act \<and>
    get_prop config ''name'' = Inr nm \<and>
    validateTenantId (js_or nm tid) = Inl err"
  then show "tenantRegistry (snd (loadTenant e (JStr src) cid m)) = tenantRegistry m"
    using loadTenant_invalid_id_no_mutation(2) by blast
qed

theorem validateTenantId_accepts_exactly_clean_ids_witness:
  "validateTenantId (JStr ''acme-1_X'') = Inr ''acme-1_X'' \<and>
   validateTenantId (JStr ''acme corp'') = Inl TenantIdInvalidCharacters \<and>
   invalid_identifier TenantIdInvalidCharacters \<and>
   (\<exists>err'. validateTenantId (JNum 7) = Inl err' \<and> invalid_identifier err') \<and>
   map_option (\<lambda>(a, tid, config, m1). (a, tid, get_prop config ''active'', get_prop config ''name''))
     (mergedTenantConfig invalid_name_env acme_dir JNull sample_manager)
     = Some (LocalTenantAdapter, JStr ''acme'', Inr (JBool True), Inr (JStr ''acme corp'')) \<and>
   fst (loadTenant invalid_name_env (JStr acme_dir) JNull sample_manager) = None \<and>
   tenantRegistry (snd (loadTenant invalid_name_env (JStr acme_dir) JNull sample_manager))
     = tenantRegistry sample_manager"
proof -
  have clean: "list_all allowed_char ''acme-1_X''" by code_simp
  have a: "validateTenantId (JStr ''acme-1_X'') = Inr ''acme-1_X''"
    using validateTenantId_accepts_exactly_clean_ids [of "JStr ''acme-1_X''" "''acme-1_X''", THEN conjunct1]
      clean by simp
  have bad: "validateTenantId (JStr ''acme corp'') = Inl TenantIdInvalidCharacters" by code_simp
  have b: "invalid_identifier TenantIdInvalidCharacters"
    using validateTenantId_accepts_exactly_clean_ids
      [of "JStr ''acme corp''" _ TenantIdInvalidCharacters, THEN conjunct2, THEN conjunct1] bad
    by blast
  have c: "\<exists>err'. validateTenantId (JNum 7) = Inl err' \<and> invalid_identifier err'"
    using validateTenantId_accepts_exactly_clean_ids
      [of "JNum 7", THEN conjunct2, THEN conjunct2, THEN conjunct1]
    by simp
  have ev: "map_option (\<lambda>(a, tid, config, m1). (a, tid, get_prop config ''active'', get_prop config ''name''))
     (mergedTenantConfig invalid_name_env acme_dir JNull sample_manager)
     = Some (LocalTenantAdapter, JStr ''acme'', Inr (JBool True), Inr (JStr ''acme corp''))"
    by code_simp
  then obtain config m1 where
    mc: "mergedTenantConfig invalid_name_env acme_dir JNull sample_manager
           = Some (LocalTenantAdapter, JStr ''acme'', config, m1)"
    and act: "get_prop config ''active'' = Inr (JBool True)"
    and nm: "get_prop config ''name'' = Inr (JStr ''acme corp'')"
    by auto
  have t: "truthy (JBool True)" by simp
  have j: "validateTenantId (js_or (JStr ''acme corp'') (JStr ''acme'')) = Inl TenantIdInvalidCharacters"
    by code_simp
  note r = validateTenantId_accepts_exactly_clean_ids
      [of _ _ TenantIdInvalidCharacters invalid_name_env acme_dir JNull sample_manager
          LocalTenantAdapter "JStr ''acme''" config m1 "JBool True" "JStr ''acme corp''",
       THEN conjunct2, THEN conjunct2, THEN conjunct2, rule_format, OF conjI, OF mc conjI,
       OF act conjI, OF t conjI, OF nm j]
  from r have f: "fst (loadTenant invalid_name_env (JStr acme_dir) JNull sample_manager) = None"
    by (rule conjunct1)
  from r have g: "tenantRegistry (snd (loadTenant invalid_name_env (JStr acme_dir) JNull sample_manager))
     = tenantRegistry sample_manager"
    by (rule conjunct2)
  from a bad b c ev f g show ?thesis by (intro conjI)
qed

text \<open>
  C4, as first stated, has the built context carry the id given by the precedence
  explicit id, package name without prefix, directory name. The sample tenant in the
  directory \<open>acme\<close> names itself \<open>sample-tenant\<close> in its configuration; built with no
  explicit id, its context has the id \<open>sample-tenant\<close>, not \<open>acme\<close>.
\<close>

theorem buildTenant_id_differs_from_precedence:
  "determineTenantId JNull LocalTenantAdapter acme_dir = JStr ''acme'' \<and>
   map_option ctx_id (fst (buildTenant renamed_env acme_dir LocalTenantAdapter JNull sample_manager))
     = Some ''sample-tenant''"
  by code_simp

text \<open>
  C4. The id \<open>buildTenant\<close> starts from follows the precedence: the explicit id when
  one is given, else the package name without its prefix for the package adapter, else
  the directory name of the source. It is handed to the adapter as the default \<open>id\<close> and
  \<open>name\<close>. The id of the built context is the \<open>name\<close> of the merged configuration
  when that is truthy, else the starting id: it is the value of the precedence whenever
  the configuration leaves \<open>name\<close> unset or equal to it.
\<close>

theorem buildTenant_id_from_config_name:
  "fst (buildTenant e src a cid m) = Some ctx \<Longrightarrow>
   determineTenantId cid a src =
     (if truthy cid then cid
      else if a = NPMTenantAdapter then JStr (stripPackagePrefix src)
      else JStr (path_basename src)) \<and>
   (\<exists>config m1 nm.
      adapter_loadConfig e a src (tenantDefaults (determineTenantId cid a src) src) m = (Inr config, m1) \<and>
      get_prop config ''name'' = Inr nm \<and>
      JStr (ctx_id ctx) = js_or nm (determineTenantId cid a src) \<and>
      (\<not> truthy nm \<or> nm = determineTenantId cid a src
         \<longrightarrow> JStr (ctx_id ctx) = determineTenantId cid a src))"
proof -
  assume "fst (buildTenant e src a cid m) = Some ctx"
  then obtain m' where "buildTenant e src a cid m = (Some ctx, m')"
    by (cases "buildTenant e src a cid m") simp
  from buildTenant_Some [OF this] obtain config m1 nm where
    lc: "adapter_loadConfig e a src (tenantDefaults (determineTenantId cid a src) src) m = (Inr config, m1)"
    and nm: "get_prop config ''name'' = Inr nm"
    and v: "validateTenantId (js_or nm (determineTenantId cid a src)) = Inr (ctx_id ctx)"
    by blast
  from v have id: "JStr (ctx_id ctx) = js_or nm (determineTenantId cid a src)"
    by (simp add: validateTenantId_Inr_iff)
  have "\<not> truthy nm \<or> nm = determineTenantId cid a src
         \<longrightarrow> JStr (ctx_id ctx) = determineTenantId cid a src"
    using id by (auto simp: js_or_def)
  then have "adapter_loadConfig e a src (tenantDefaults (determineTenantId cid a src) src) m = (Inr config, m1) \<and>
      get_prop config ''name'' = Inr nm \<and>
      JStr (ctx_id ctx) = js_or nm (determineTenantId cid a src) \<and>
      (\<not> truthy nm \<or> nm = determineTenantId cid a src
         \<longrightarrow> JStr (ctx_id ctx) = determineTenantId cid a src)"
    using lc nm id by (intro conjI)
  then have ex: "\<exists>config m1 nm.
      adapter_loadConfig e a src (tenantDefaults (determineTenantId cid a src) src) m = (Inr config, m1) \<and>
      get_prop config ''name'' = Inr nm \<and>
      JStr (ctx_id ctx) = js_or nm (determineTenantId cid a src) \<and>
      (\<not> truthy nm \<or> nm = determineTenantId cid a src
         \<longrightarrow> JStr (ctx_id ctx) = determineTenantId cid a src)"
    by (intro exI)
  from determineTenantId_precedence [of cid a src] ex show ?thesis by (intro conjI)
qed

theorem buildTenant_id_from_config_name_witness:
  "fst (buildTenant plain_env acme_dir LocalTenantAdapter JNull sample_manager) \<noteq> None \<and>
   map_option ctx_id (fst (buildTenant plain_env acme_dir LocalTenantAdapter JNull sample_manager))
     = Some ''acme'' \<and>
   determineTenantId JNull LocalTenantAdapter acme_dir = JStr ''acme''"
proof -
  have d: "determineTenantId JNull LocalTenantAdapter acme_dir = JStr ''acme''" by code_simp
  have s: "fst (buildTenant plain_env acme_dir LocalTenantAdapter JNull sample_manager) \<noteq> None"
    by code_simp
  then obtain ctx where
    c: "fst (buildTenant plain_env acme_dir LocalTenantAdapter JNull sample_manager) = Some ctx"
    by auto
  have lc: "fst (adapter_loadConfig plain_env LocalTenantAdapter acme_dir
               (tenantDefaults (JStr ''acme'') acme_dir) sample_manager)
            = Inr (JObj (tenantDefaults (JStr ''acme'') acme_dir))"
    by code_simp
  have nmv: "get_prop (JObj (tenantDefaults (JStr ''acme'') acme_dir)) ''name'' = Inr (JStr ''acme'')"
    by code_simp
  from buildTenant_id_from_config_name [OF c, THEN conjunct2] obtain config m1 nm where
    k1: "adapter_loadConfig plain_env LocalTenantAdapter acme_dir
           (tenantDefaults (determineTenantId JNull LocalTenantAdapter acme_dir) acme_dir) sample_manager
         = (Inr config, m1)"
    and k2: "get_prop config ''name'' = Inr nm"
    and k3: "\<not> truthy nm \<or> nm = determineTenantId JNull LocalTenantAdapter acme_dir
         \<longrightarrow> JStr (ctx_id ctx) = determineTenantId JNull LocalTenantAdapter acme_dir"
    by blast
  from k1 lc have "config = JObj (tenantDefaults (JStr ''acme'') acme_dir)"
    by (simp only: d fst_conv sum.inject)
  with k2 nmv have "nm = JStr ''acme''" by (simp only: sum.inject)
  with k3 have "JStr (ctx_id ctx) = JStr ''acme''" by (simp only: d simp_thms)
  then have "ctx_id ctx = ''acme''" by (simp only: jsval.inject)
  with c d s show ?thesis by simp
qed

text \<open>
  C5. When the merged configuration of a source has \<open>active\<close> equal to \<open>false\<close>,
  \<open>loadTenant\<close> returns nothing, logs the skip at information level, and leaves the
  registry as it was. The skip is an ordinary result: \<open>loadTenant\<close> has no raised
  outcome at all.
\<close>

theorem loadTenant_inactive_skipped:
  "mergedTenantConfig e src cid m = Some (a, tid, config, m1) \<Longrightarrow>
   get_prop config ''active'' = Inr (JBool False) \<Longrightarrow>
   loadTenant e (JStr src) cid m =
     (None, logger_write LogInfo ''Tenant is inactive, skipping'' [tid] m1) \<and>
   tenantRegistry (snd (loadTenant e (JStr src) cid m)) = tenantRegistry m"
proof -
  assume mc: "mergedTenantConfig e src cid m = Some (a, tid, config, m1)"
    and act: "get_prop config ''active'' = Inr (JBool False)"
  have "buildFromConfig e a tid config m1 =
      (Inr None, logger_write LogInfo ''Tenant is inactive, skipping'' [tid] m1)"
    using act by (simp add: buildFromConfig_inactive)
  with mergedTenantConfig_createTenant [OF mc]
  have "createTenant e (JStr src) cid m =
      (Inr None, logger_write LogInfo ''Tenant is inactive, skipping'' [tid] m1)"
    by simp
  then have lt: "loadTenant e (JStr src) cid m =
      (None, logger_write LogInfo ''Tenant is inactive, skipping'' [tid] m1)"
    by (simp add: loadTenant_def)
  moreover have "tenantRegistry m1 = tenantRegistry m"
    using mc by (rule mergedTenantConfig_registry)
  ultimately show ?thesis by simp
qed

theorem loadTenant_inactive_skipped_witness:
  "map_option (\<lambda>(a, tid, config, m1). (a, tid, get_prop config ''active''))
     (mergedTenantConfig inactive_env acme_dir JNull sample_manager)
     = Some (LocalTenantAdapter, JStr ''acme'', Inr (JBool False)) \<and>
   fst (loadTenant inactive_env (JStr acme_dir) JNull sample_manager) = None \<and>
   tenantRegistry (snd (loadTenant inactive_env (JStr acme_dir) JNull sample_manager))
     = tenantRegistry sample_manager \<and>
   tenants (tenantRegistry sample_manager) = []"
proof -
  have ev: "map_option (\<lambda>(a, tid, config, m1). (a, tid, get_prop config ''active''))
     (mergedTenantConfig inactive_env acme_dir JNull sample_manager)
     = Some (LocalTenantAdapter, JStr ''acme'', Inr (JBool False))"
    by code_simp
  then obtain config m1 where
    mc: "mergedTenantConfig inactive_env acme_dir JNull sample_manager
           = Some (LocalTenantAdapter, JStr ''acme'', config, m1)"
    and act: "get_prop config ''active'' = Inr (JBool False)"
    by auto
  have e: "tenants (tenantRegistry sample_manager) = []" by code_simp
  note r = loadTenant_inactive_skipped [OF mc act]
  from r have f: "fst (loadTenant inactive_env (JStr acme_dir) JNull sample_manager) = None"
    by simp
  from r have reg: "tenantRegistry (snd (loadTenant inactive_env (JStr acme_dir) JNull sample_manager))
     = tenantRegistry sample_manager"
    by (rule conjunct2)
  from ev f reg e show ?thesis by (intro conjI)
qed

section \<open>Reloading a tenant\<close>

lemma getTenant_unregister: "getTenant (snd (unregister tid m)) tid = None"
  by (simp add: getTenant_def unregister_tenants map_of_obj_delete)

lemma reloadTenant_found:
  "getTenant m tid = Some old \<Longrightarrow> get_prop (ctx_config old) ''source'' = Inr source \<Longrightarrow>
   reloadTenant e tid m =
     (case loadTenant e source (JStr tid) (snd (unregister tid m)) of
        (reloaded, m2) \<Rightarrow> (Inr reloaded, m2))"
  by (simp add: reloadTenant_def split: prod.splits)

lemma reloadTenant_not_found_iff:
  "fst (reloadTenant e tid m) = Inl (TenantNotFound tid) \<longleftrightarrow> getTenant m tid = None"
  by (auto simp: reloadTenant_def split: option.splits sum.splits prod.splits
      elim!: get_prop.elims)

text \<open>
  C6, as first stated, has every reload of a registered tenant end with the registry
  mapping the id to the rebuilt context. The tenant \<open>acme\<close> is loaded, then its
  configuration is changed: with \<open>active: false\<close> the reload returns nothing and
  \<open>acme\<close> is gone from the registry; with a new \<open>name\<close> the rebuilt context is
  registered under that name and \<open>acme\<close> is gone as well.
\<close>

theorem reloadTenant_can_drop_the_tenant:
  "getTenant loaded_manager ''acme'' \<noteq> None \<and>
   fst (reloadTenant inactive_env ''acme'' loaded_manager) = Inr None \<and>
   getTenant (snd (reloadTenant inactive_env ''acme'' loaded_manager)) ''acme'' = None \<and>
   map_option ctx_id (projr (fst (reloadTenant renamed_env ''acme'' loaded_manager)))
     = Some ''sample-tenant'' \<and>
   getTenant (snd (reloadTenant renamed_env ''acme'' loaded_manager)) ''acme'' = None"
  by code_simp

text \<open>
  C6. \<open>reloadTenant\<close> raises \<open>TenantNotFound\<close> exactly when no tenant is registered
  under the id. Otherwise it removes the entry and loads the tenant again from the
  \<open>source\<close> recorded in the configuration of the old context, with the id as explicit
  id. When the load returns nothing, the id is left without an entry. When it returns a
  context, that context is registered under its own id, which is the \<open>name\<close> of the
  newly merged configuration when that is truthy and the given id otherwise; the registry
  maps the given id to the new context when the two ids agree, and to nothing when they
  differ.
\<close>

theorem reloadTenant_rebuilds_or_drops:
  "(fst (reloadTenant e tid m) = Inl (TenantNotFound tid) \<longleftrightarrow> getTenant m tid = None) \<and>
   (getTenant m tid = Some old \<and> get_prop (ctx_config old) ''source'' = Inr source \<longrightarrow>
      reloadTenant e tid m =
        (case loadTenant e source (JStr tid) (snd (unregister tid m)) of
           (reloaded, m2) \<Rightarrow> (Inr reloaded, m2)) \<and>
      getTenant (snd (unregister tid m)) tid = None \<and>
      (fst (reloadTenant e tid m) = Inr None \<longrightarrow>
         getTenant (snd (reloadTenant e tid m)) tid = None) \<and>
      (\<forall>ctx. fst (reloadTenant e tid m) = Inr (Some ctx) \<longrightarrow>
         getTenant (snd (reloadTenant e tid m)) (ctx_id ctx) = Some ctx \<and>
         (ctx_id ctx \<noteq> tid \<longrightarrow> getTenant (snd (reloadTenant e tid m)) tid = None) \<and>
         (\<exists>src a config m1 nm.
            source = JStr src \<and>
            mergedTenantConfig e src (JStr tid) (snd (unregister tid m))
              = Some (a, determineTenantId (JStr tid) a src, config, m1) \<and>
            get_prop config ''name'' = Inr nm \<and>
            JStr (ctx_id ctx) = js_or nm (determineTenantId (JStr tid) a src))))"
proof (intro conjI impI allI)
  show "fst (reloadTenant e tid m) = Inl (TenantNotFound tid) \<longleftrightarrow> getTenant m tid = None"
    by (rule reloadTenant_not_found_iff)
next
  assume h: "getTenant m tid = Some old \<and> get_prop (ctx_config old) ''source'' = Inr source"
  then show "reloadTenant e tid m =
        (case loadTenant e source (JStr tid) (snd (unregister tid m)) of
           (reloaded, m2) \<Rightarrow> (Inr reloaded, m2))"
    by (simp add: reloadTenant_found)
next
  show "getTenant (snd (unregister tid m)) tid = None" by (rule getTenant_unregister)
next
  assume h: "getTenant m tid = Some old \<and> get_prop (ctx_config old) ''source'' = Inr source"
    and n: "fst (reloadTenant e tid m) = Inr None"
  obtain r m2 where lt: "loadTenant e source (JStr tid) (snd (unregister tid m)) = (r, m2)"
    by (cases "loadTenant e source (JStr tid) (snd (unregister tid m))")
  with h have rl: "reloadTenant e tid m = (Inr r, m2)" by (simp add: reloadTenant_found)
  with n have "r = None" by simp
  with lt have "tenantRegistry m2 = tenantRegistry (snd (unregister tid m))"
    by (simp add: loadTenant_None_registry)
  then have "getTenant m2 tid = getTenant (snd (unregister tid m)) tid"
    by (simp add: getTenant_def)
  with rl show "getTenant (snd (reloadTenant e tid m)) tid = None"
    by (simp add: getTenant_unregister)
next
  fix ctx
  assume h: "getTenant m tid = Some old \<and> get_prop (ctx_config old) ''source'' = Inr source"
    and s: "fst (reloadTenant e tid m) = Inr (Some ctx)"
  obtain r m2 where lt: "loadTenant e source (JStr tid) (snd (unregister tid m)) = (r, m2)"
    by (cases "loadTenant e source (JStr tid) (snd (unregister tid m))")
  with h have rl: "reloadTenant e tid m = (Inr r, m2)" by (simp add: reloadTenant_found)
  with s have "r = Some ctx" by simp
  with lt have lt': "loadTenant e source (JStr tid) (snd (unregister tid m)) = (Some ctx, m2)"
    by simp
  show "getTenant (snd (reloadTenant e tid m)) (ctx_id ctx) = Some ctx"
    using loadTenant_Some_lookup(1) [OF lt'] rl by simp
  show "\<exists>src a config m1 nm.
            source = JStr src \<and>
            mergedTenantConfig e src (JStr tid) (snd (unregister tid m))
              = Some (a, determineTenantId (JStr tid) a src, config, m1) \<and>
            get_prop config ''name'' = Inr nm \<and>
            JStr (ctx_id ctx) = js_or nm (determineTenantId (JStr tid) a src)"
    by (rule loadTenant_Some_id [OF lt'])
  assume "ctx_id ctx \<noteq> tid"
  then have "tid \<noteq> ctx_id ctx" by simp
  from loadTenant_Some_lookup(2) [OF lt' this] rl
  show "getTenant (snd (reloadTenant e tid m)) tid = None"
    by (simp add: getTenant_unregister)
qed

theorem reloadTenant_rebuilds_or_drops_witness:
  "map_option (\<lambda>old. get_prop (ctx_config old) ''source'') (getTenant loaded_manager ''acme'')
     = Some (Inr (JStr acme_dir)) \<and>
   map_option ctx_id (projr (fst (reloadTenant plain_env ''acme'' loaded_manager))) = Some ''acme'' \<and>
   (\<exists>ctx. fst (reloadTenant plain_env ''acme'' loaded_manager) = Inr (Some ctx) \<and>
      getTenant (snd (reloadTenant plain_env ''acme'' loaded_manager)) ''acme'' = Some ctx) \<and>
   fst (reloadTenant plain_env ''ghost'' loaded_manager) = Inl (TenantNotFound ''ghost'') \<and>
   fst (reloadTenant inactive_env ''acme'' loaded_manager) = Inr None \<and>
   getTenant (snd (reloadTenant inactive_env ''acme'' loaded_manager)) ''acme'' = None"
proof -
  have ev: "map_option (\<lambda>old. get_prop (ctx_config old) ''source'') (getTenant loaded_manager ''acme'')
     = Some (Inr (JStr acme_dir))"
    by code_simp
  then obtain old where o: "getTenant loaded_manager ''acme'' = Some old"
    and src: "get_prop (ctx_config old) ''source'' = Inr (JStr acme_dir)"
    by auto
  have rid: "map_option ctx_id (projr (fst (reloadTenant plain_env ''acme'' loaded_manager))) = Some ''acme''"
    by code_simp
  have isr: "isl (fst (reloadTenant plain_env ''acme'' loaded_manager)) = False"
    by code_simp
  from rid isr obtain ctx where
    c: "fst (reloadTenant plain_env ''acme'' loaded_manager) = Inr (Some ctx)"
    and cid: "ctx_id ctx = ''acme''"
    by (cases "fst (reloadTenant plain_env ''acme'' loaded_manager)") auto
  note r = reloadTenant_rebuilds_or_drops [of plain_env "''acme''" loaded_manager old "JStr acme_dir"]
  from r o src c have "getTenant (snd (reloadTenant plain_env ''acme'' loaded_manager)) (ctx_id ctx) = Some ctx"
    by blast
  with cid c have ex: "\<exists>ctx. fst (reloadTenant plain_env ''acme'' loaded_manager) = Inr (Some ctx) \<and>
      getTenant (snd (reloadTenant plain_env ''acme'' loaded_manager)) ''acme'' = Some ctx"
    by auto
  have g: "getTenant loaded_manager ''ghost'' = None" by code_simp
  have nf: "fst (reloadTenant plain_env ''ghost'' loaded_manager) = Inl (TenantNotFound ''ghost'')"
    using reloadTenant_rebuilds_or_drops [of plain_env "''ghost''" loaded_manager, THEN conjunct1] g
    by blast
  have dn: "fst (reloadTenant inactive_env ''acme'' loaded_manager) = Inr None" by code_simp
  from reloadTenant_rebuilds_or_drops [of inactive_env "''acme''" loaded_manager old "JStr acme_dir"]
    o src dn
  have gone: "getTenant (snd (reloadTenant inactive_env ''acme'' loaded_manager)) ''acme'' = None"
    by blast
  from ev rid ex nf dn gone show ?thesis by (intro conjI)
qed

end
